theory Spec2Isabelle
  imports Complex_Main "HOL-Library.Monad_Syntax"
begin

section \<open>Numbers, exceptions and configuration\<close>

text \<open>
  The model follows \<^verbatim>\<open>dutch_bay_financial_model.py\<close>, \<^verbatim>\<open>dutchbay_finmodel_enhanced.py\<close>,
  \<^verbatim>\<open>optimization_enhanced.py\<close> and \<^verbatim>\<open>montecarlo.py\<close>.

  Python floats are modelled as the real numbers they approximate: rounding and overflow are
  outside the model, so an equation proved here is an equation of the exact values.
  The special values that NumPy produces on a division by zero (infinities, not-a-number)
  are modelled explicitly where the code relies on them (the DSCR column).

  The only exception the core module can raise on numbers is \<^verbatim>\<open>ZeroDivisionError\<close>, from the
  scalar operator \<^verbatim>\<open>/\<close>. A scalar function therefore returns an option: \<open>None\<close> stands for
  "raises \<^verbatim>\<open>ZeroDivisionError\<close>".
\<close>

definition py_div :: "real \<Rightarrow> real \<Rightarrow> real option" where
  "py_div a b = (if b = 0 then None else Some (a / b))"

text \<open>
  The module-level constants (lines 13-38, "can be overridden via CSV") are the
  configuration. Every function reads them when it is called, so they are a parameter of
  every function of the model; \<open>nominal\<close> is the configuration written in the source.
  Integer constants that are used as counts keep a discrete type.
\<close>

record params =
  PROJECT_YEARS :: nat
  NAMEPLATE_MW :: real
  CF_P50 :: real
  YEARLY_DEGRADATION :: real
  HOURS_PER_YEAR :: real
  TARIFF_LKR_KWH :: real
  FX_INITIAL :: real
  FX_DEPR :: real
  OPEX_USD_MWH :: real
  OPEX_ESC_USD :: real
  OPEX_ESC_LKR :: real
  OPEX_SPLIT_USD :: real
  OPEX_SPLIT_LKR :: real
  CAPEX_TOTAL :: real
  ECON_LIFE :: nat
  SSCL_RATE :: real
  TAX_RATE :: real
  USD_DEBT_INIT :: real
  LKR_DEBT_INIT :: real
  USD_DEBT_RATE :: real
  LKR_DEBT_RATE :: real
  USD_DEBT_TENOR :: nat
  LKR_DEBT_TENOR :: nat
  GRACE_PERIOD :: int
  PRINCIPAL_PCT_1_4 :: real
  PRINCIPAL_PCT_5_ON :: real

definition nominal :: params where
  "nominal = \<lparr>
     PROJECT_YEARS = 20,
     NAMEPLATE_MW = 150,
     CF_P50 = 40 / 100,
     YEARLY_DEGRADATION = 6 / 1000,
     HOURS_PER_YEAR = 8760,
     TARIFF_LKR_KWH = 2036 / 100,
     FX_INITIAL = 300,
     FX_DEPR = 3 / 100,
     OPEX_USD_MWH = 683 / 100,
     OPEX_ESC_USD = 2 / 100,
     OPEX_ESC_LKR = 5 / 100,
     OPEX_SPLIT_USD = 3 / 10,
     OPEX_SPLIT_LKR = 7 / 10,
     CAPEX_TOTAL = 14638 / 100,
     ECON_LIFE = 20,
     SSCL_RATE = 25 / 1000,
     TAX_RATE = 30 / 100,
     USD_DEBT_INIT = 5636 / 100,
     LKR_DEBT_INIT = 13833,
     USD_DEBT_RATE = 7 / 100,
     LKR_DEBT_RATE = 7 / 100,
     USD_DEBT_TENOR = 15,
     LKR_DEBT_TENOR = 15,
     GRACE_PERIOD = 1,
     PRINCIPAL_PCT_1_4 = 80 / 100,
     PRINCIPAL_PCT_5_ON = 20 / 100 \<rparr>"

section \<open>Cash-flow engine\<close>

text \<open>
  The per-year functions take the project year, which the docstrings give as 1..20 and which
  every caller takes from \<^verbatim>\<open>range(1, PROJECT_YEARS + 1)\<close>. The year is a natural number and
  the exponent \<^verbatim>\<open>year - 1\<close> is the truncated difference: the model is the code for
  \<open>year \<ge> 1\<close>.
\<close>

definition compute_generation :: "params \<Rightarrow> nat \<Rightarrow> real" where
  "compute_generation p year =
     NAMEPLATE_MW p * HOURS_PER_YEAR p * CF_P50 p * (1 - YEARLY_DEGRADATION p) ^ (year - 1)"

definition compute_fx :: "params \<Rightarrow> nat \<Rightarrow> real" where
  "compute_fx p year = FX_INITIAL p * (1 + FX_DEPR p) ^ (year - 1)"

definition compute_tariff_usd :: "params \<Rightarrow> nat \<Rightarrow> real option" where
  "compute_tariff_usd p year = do {
     let fx = compute_fx p year;
     q \<leftarrow> py_div (TARIFF_LKR_KWH p) fx;
     Some (q * 1000)
   }"

definition compute_revenue :: "params \<Rightarrow> nat \<Rightarrow> real option" where
  "compute_revenue p year = do {
     let gen = compute_generation p year;
     tariff_usd \<leftarrow> compute_tariff_usd p year;
     Some (gen * tariff_usd / 1000000)
   }"

definition compute_sscl :: "params \<Rightarrow> nat \<Rightarrow> real option" where
  "compute_sscl p year = do {
     revenue \<leftarrow> compute_revenue p year;
     Some (revenue * SSCL_RATE p)
   }"

definition compute_opex :: "params \<Rightarrow> nat \<Rightarrow> real option" where
  "compute_opex p year = do {
     let gen = compute_generation p year;
     let fx = compute_fx p year;
     let usd_portion = OPEX_USD_MWH p * OPEX_SPLIT_USD p * (1 + OPEX_ESC_USD p) ^ (year - 1);
     let lkr_portion_base = OPEX_USD_MWH p * OPEX_SPLIT_LKR p * (1 + OPEX_ESC_LKR p) ^ (year - 1);
     fx_ratio \<leftarrow> py_div fx (FX_INITIAL p);
     lkr_portion_usd \<leftarrow> py_div lkr_portion_base fx_ratio;
     Some (gen * (usd_portion + lkr_portion_usd) / 1000000)
   }"

definition compute_depreciation :: "params \<Rightarrow> real option" where
  "compute_depreciation p = py_div (CAPEX_TOTAL p) (real (ECON_LIFE p))"

section \<open>Debt amortization scheduler\<close>

text \<open>
  The state of the loop of \<^verbatim>\<open>compute_debt_schedule\<close>: the two outstanding balances and the
  five history lists, each extended by one entry per year.
\<close>

record sched_state =
  usd_bal :: real
  lkr_bal :: real
  usd_principal_hist :: "real list"
  usd_interest_hist :: "real list"
  lkr_principal_hist :: "real list"
  lkr_interest_hist :: "real list"
  lkr_ds_hist :: "real list"

definition sched_init :: "params \<Rightarrow> sched_state" where
  "sched_init p = \<lparr>
     usd_bal = USD_DEBT_INIT p,
     lkr_bal = LKR_DEBT_INIT p,
     usd_principal_hist = [],
     usd_interest_hist = [],
     lkr_principal_hist = [],
     lkr_interest_hist = [],
     lkr_ds_hist = [] \<rparr>"

text \<open>
  Lines 162-166 of the loop body: the scheduler's own chain from revenue to operating
  cash flow (the local variable \<^verbatim>\<open>op_cf\<close>). It reads the year and the configuration only.
\<close>

definition sched_op_cf :: "params \<Rightarrow> nat \<Rightarrow> real option" where
  "sched_op_cf p year = do {
     revenue \<leftarrow> compute_revenue p year;
     sscl \<leftarrow> compute_sscl p year;
     opex \<leftarrow> compute_opex p year;
     let ebitda = revenue - sscl - opex;
     da \<leftarrow> compute_depreciation p;
     let ebit = ebitda - da;
     let tax = max 0 (ebit * TAX_RATE p);
     Some (ebit - tax + da)
   }"

text \<open>Lines 169-176: the year-banded principal policy of the USD facility.\<close>

definition usd_policy :: "params \<Rightarrow> nat \<Rightarrow> real \<Rightarrow> real \<Rightarrow> real" where
  "usd_policy p year bal op_cf_avail =
     (if year = 1 \<and> GRACE_PERIOD p = 1 then 0
      else if 2 \<le> year \<and> year \<le> 4 then min bal (PRINCIPAL_PCT_1_4 p * op_cf_avail)
      else if 4 < year then min bal (PRINCIPAL_PCT_5_ON p * op_cf_avail)
      else 0)"

text \<open>Lines 178-181: straight-line amortization of the LKR facility over the remaining tenor.\<close>

definition lkr_policy :: "params \<Rightarrow> nat \<Rightarrow> real \<Rightarrow> real" where
  "lkr_policy p year bal =
     (if year \<le> LKR_DEBT_TENOR p then bal / real (LKR_DEBT_TENOR p - year + 1) else 0)"

text \<open>One iteration of the loop (lines 155-188).\<close>

definition sched_year :: "params \<Rightarrow> nat \<Rightarrow> sched_state \<Rightarrow> sched_state option" where
  "sched_year p year s = do {
     let usd_int = usd_bal s * USD_DEBT_RATE p;
     let lkr_int = lkr_bal s * LKR_DEBT_RATE p;
     let fx = compute_fx p year;
     lkr_int_usd \<leftarrow> py_div lkr_int fx;
     op_cf \<leftarrow> sched_op_cf p year;
     let op_cf_avail = op_cf - usd_int - lkr_int_usd;
     let usd_prin = usd_policy p year (usd_bal s) op_cf_avail;
     let lkr_prin = lkr_policy p year (lkr_bal s);
     let lkr_ds = lkr_int + lkr_prin;
     Some \<lparr>
       usd_bal = max 0 (usd_bal s - usd_prin),
       lkr_bal = max 0 (lkr_bal s - lkr_prin),
       usd_principal_hist = usd_principal_hist s @ [usd_prin],
       usd_interest_hist = usd_interest_hist s @ [usd_int],
       lkr_principal_hist = lkr_principal_hist s @ [lkr_prin],
       lkr_interest_hist = lkr_interest_hist s @ [lkr_int],
       lkr_ds_hist = lkr_ds_hist s @ [lkr_ds] \<rparr>
   }"

text \<open>The loop over a list of years; an exception in one iteration ends the run.\<close>

fun sched_loop :: "params \<Rightarrow> nat list \<Rightarrow> sched_state \<Rightarrow> sched_state option" where
  "sched_loop p [] s = Some s"
| "sched_loop p (year # years) s =
     (case sched_year p year s of None \<Rightarrow> None | Some s' \<Rightarrow> sched_loop p years s')"

text \<open>The state after the iterations for the years \<open>1..k\<close>.\<close>

definition sched_after :: "params \<Rightarrow> nat \<Rightarrow> sched_state option" where
  "sched_after p k = sched_loop p [1..<Suc k] (sched_init p)"

definition compute_debt_schedule ::
  "params \<Rightarrow> (real list \<times> real list \<times> real list \<times> real list \<times> real list) option" where
  "compute_debt_schedule p = do {
     s \<leftarrow> sched_after p (PROJECT_YEARS p);
     Some (usd_principal_hist s, usd_interest_hist s, lkr_principal_hist s,
           lkr_interest_hist s, lkr_ds_hist s)
   }"

section \<open>Model assembler\<close>

text \<open>
  NumPy arrays are lists; an arithmetic operator between two arrays of the same length acts
  element by element. A list comprehension over the years calls a scalar function once per
  year and raises as soon as one call raises (\<open>those\<close> of the mapped list).

  NumPy's array division does not raise on a zero divisor: with the default error state it
  yields an infinity, or not-a-number for \<^verbatim>\<open>0/0\<close>. The DSCR column is the one place where
  the code divides by a value that can be zero, so its entries carry these special values.
\<close>

datatype npfloat = Finite real | PosInf | NegInf | NaN

definition np_divide :: "real \<Rightarrow> real \<Rightarrow> npfloat" where
  "np_divide a b =
     (if b \<noteq> 0 then Finite (a / b)
      else if 0 < a then PosInf
      else if a < 0 then NegInf
      else NaN)"

definition np_where :: "bool list \<Rightarrow> npfloat list \<Rightarrow> npfloat \<Rightarrow> npfloat list" where
  "np_where cond xs y = map2 (\<lambda>c x. if c then x else y) cond xs"

record ledger =
  Year :: "nat list"
  Generation_MWh :: "real list"
  FX :: "real list"
  Tariff_USD_MWh :: "real list"
  Revenue_USD_M :: "real list"
  SSCL_USD_M :: "real list"
  OPEX_USD_M :: "real list"
  EBITDA :: "real list"
  DA :: "real list"
  EBIT :: "real list"
  Tax :: "real list"
  Op_CF :: "real list"
  USD_Int :: "real list"
  USD_Prin :: "real list"
  LKR_Int :: "real list"
  LKR_Prin :: "real list"
  Total_DS :: "real list"
  DSCR :: "npfloat list"
  Eq_CF :: "real list"

text \<open>
  \<^verbatim>\<open>build_full_model\<close> (lines 196-253). The divisions by the \<^verbatim>\<open>fx\<close> array in lines 223-224
  are array divisions; they are reached only after \<^verbatim>\<open>compute_tariff_usd\<close> has divided by
  every entry of \<^verbatim>\<open>fx\<close> without raising, so every divisor is nonzero there (lemma
  \<open>build_full_model_fx_nonzero\<close> below) and the quotient is the ordinary one.
\<close>

definition build_full_model :: "params \<Rightarrow> ledger option" where
  "build_full_model p = do {
     let years = [1..<Suc (PROJECT_YEARS p)];
     let gen = map (compute_generation p) years;
     let fx = map (compute_fx p) years;
     tariff_usd \<leftarrow> those (map (compute_tariff_usd p) years);
     revenue \<leftarrow> those (map (compute_revenue p) years);
     sscl \<leftarrow> those (map (compute_sscl p) years);
     opex \<leftarrow> those (map (compute_opex p) years);
     d \<leftarrow> compute_depreciation p;
     let da = map (\<lambda>one. d * one) (replicate (PROJECT_YEARS p) 1);
     let ebitda = map2 (-) (map2 (-) revenue sscl) opex;
     let ebit = map2 (-) ebitda da;
     let tax = map (\<lambda>x. max 0 (x * TAX_RATE p)) ebit;
     let op_cf = map2 (+) (map2 (-) ebit tax) da;
     (usd_prin, usd_int, lkr_prin, lkr_int, lkr_ds) \<leftarrow> compute_debt_schedule p;
     let lkr_int_usd = map2 (/) lkr_int fx;
     let lkr_prin_usd = map2 (/) lkr_prin fx;
     let total_ds = map2 (+) (map2 (+) (map2 (+) usd_int usd_prin) lkr_int_usd) lkr_prin_usd;
     let dscr = np_where (map (\<lambda>ds. 1 / 1000000 < ds) total_ds) (map2 np_divide op_cf total_ds) NaN;
     let eq_cf = map2 (-) op_cf total_ds;
     Some \<lparr>
       Year = years,
       Generation_MWh = gen,
       FX = fx,
       Tariff_USD_MWh = tariff_usd,
       Revenue_USD_M = revenue,
       SSCL_USD_M = sscl,
       OPEX_USD_M = opex,
       EBITDA = ebitda,
       DA = da,
       EBIT = ebit,
       Tax = tax,
       Op_CF = op_cf,
       USD_Int = usd_int,
       USD_Prin = usd_prin,
       LKR_Int = lkr_int_usd,
       LKR_Prin = lkr_prin_usd,
       Total_DS = total_ds,
       DSCR = dscr,
       Eq_CF = eq_cf \<rparr>
   }"

section \<open>Python values, dictionaries and exceptions\<close>

text \<open>
  The root-finding layer and the optimizer return dictionaries whose set of keys depends on
  the path taken, so a dictionary is an association list from keys to Python values, in the
  order of the dictionary literal. A computation that can raise returns \<open>Raises e\<close>, with
  \<open>e\<close> the text of the exception, or \<open>Returns v\<close>.
\<close>

datatype pyval =
    PyNone
  | PyNum real
  | PyBool bool
  | PyStr string
  | PyDict "(string \<times> pyval) list"

type_synonym pydict = "(string \<times> pyval) list"

datatype 'a py = Raises string | Returns 'a





section \<open>Root-finding layer: the checks of \<^verbatim>\<open>calculate_irr_robust\<close>\<close>

text \<open>Line 34: the number of sign changes between consecutive cash flows.\<close>

fun sign_changes :: "real list \<Rightarrow> nat" where
  "sign_changes (a # b # cs) = (if a * b < 0 then 1 else 0) + sign_changes (b # cs)"
| "sign_changes _ = 0"

text \<open>
  \<^verbatim>\<open>calculate_irr_robust\<close> (lines 27-55). Lines 28-33 are the three checks, line 34 counts the
  sign changes and line 35 decides whether a warning is attached. Lines 36-55 call SciPy's
  \<^verbatim>\<open>brentq\<close> and \<^verbatim>\<open>newton\<close>; that solver phase is the parameter \<open>solver_phase\<close>, which receives
  the arguments of the call and the number of sign changes when the warning is attached, and
  which may return any dictionary or raise.
\<close>

definition calculate_irr_robust ::
  "(real list \<Rightarrow> string \<Rightarrow> real \<Rightarrow> real \<Rightarrow> nat \<Rightarrow> nat option \<Rightarrow> pydict py) \<Rightarrow>
   real list \<Rightarrow> string \<Rightarrow> real \<Rightarrow> real \<Rightarrow> nat \<Rightarrow> pydict py" where
  "calculate_irr_robust solver_phase cash_flows method initial_guess tolerance max_iterations =
     (if length cash_flows < 2 then
        Returns [(''irr'', PyNone), (''status'', PyStr ''ERROR''),
                 (''message'', PyStr ''Need at least 2 cash flows''), (''method'', PyNone)]
      else if list_all (\<lambda>cf. 0 \<le> cf) cash_flows then
        Returns [(''irr'', PyNone), (''status'', PyStr ''ERROR''),
                 (''message'', PyStr ''No negative cash flows - IRR undefined''),
                 (''method'', PyNone)]
      else if list_all (\<lambda>cf. cf \<le> 0) cash_flows then
        Returns [(''irr'', PyNone), (''status'', PyStr ''ERROR''),
                 (''message'', PyStr ''No positive cash flows - IRR undefined''),
                 (''method'', PyNone)]
      else
        let n = sign_changes cash_flows;
            warning = (if 1 < n then Some n else None)
        in solver_phase cash_flows method initial_guess tolerance max_iterations warning)"

section \<open>Optimizer\<close>








section \<open>Monte Carlo sampler\<close>

text \<open>
  NumPy's generator is an external library. Its state is a type \<open>'g\<close> and it enters through
  two parameters: \<open>seed_rng\<close> builds the state from an integer seed, and \<open>next_double\<close> draws
  one number in the unit interval and advances the state. \<^verbatim>\<open>default_rng(None)\<close> seeds the
  generator from fresh entropy of the operating system; that entropy is the explicit input
  \<open>entropy\<close>, different from one call to the next.
\<close>

definition default_rng :: "(nat \<Rightarrow> 'g) \<Rightarrow> nat \<Rightarrow> nat option \<Rightarrow> 'g" where
  "default_rng seed_rng entropy seed =
     (case seed of None \<Rightarrow> seed_rng entropy | Some s \<Rightarrow> seed_rng s)"

fun draws :: "('g \<Rightarrow> real \<times> 'g) \<Rightarrow> 'g \<Rightarrow> nat \<Rightarrow> real list \<times> 'g" where
  "draws next_double g 0 = ([], g)"
| "draws next_double g (Suc n) =
     (case next_double g of (u, g') \<Rightarrow>
        case draws next_double g' n of (us, g'') \<Rightarrow> (u # us, g''))"

text \<open>\<^verbatim>\<open>rng.uniform(low, high, size)\<close>: \<open>size\<close> draws, each scaled into the interval.\<close>

definition uniform ::
  "('g \<Rightarrow> real \<times> 'g) \<Rightarrow> 'g \<Rightarrow> real \<Rightarrow> real \<Rightarrow> nat \<Rightarrow> real list \<times> 'g" where
  "uniform next_double g low high size' =
     (case draws next_double g size' of (us, g') \<Rightarrow>
        (map (\<lambda>u. low + (high - low) * u) us, g'))"

record mc_parameters =
  mc_usd_rate :: "real list"
  mc_lkr_rate :: "real list"
  mc_debt_ratio :: "real list"
  mc_fx_depr :: "real list"
  mc_capacity_factor :: "real list"

definition generate_mc_parameters ::
  "(nat \<Rightarrow> 'g) \<Rightarrow> ('g \<Rightarrow> real \<times> 'g) \<Rightarrow> nat \<Rightarrow> nat \<Rightarrow> nat option \<Rightarrow> mc_parameters" where
  "generate_mc_parameters seed_rng next_double entropy n_scenarios seed =
     (let rng0 = default_rng seed_rng entropy seed;
          (usd_rate, rng1) = uniform next_double rng0 (65 / 1000) (9 / 100) n_scenarios;
          (lkr_rate, rng2) = uniform next_double rng1 (75 / 1000) (9 / 100) n_scenarios;
          (debt_ratio, rng3) = uniform next_double rng2 (5 / 10) (8 / 10) n_scenarios;
          (fx_depr, rng4) = uniform next_double rng3 (3 / 100) (5 / 100) n_scenarios;
          (capacity_factor, rng5) = uniform next_double rng4 (38 / 100) (42 / 100) n_scenarios
      in \<lparr>mc_usd_rate = usd_rate, mc_lkr_rate = lkr_rate, mc_debt_ratio = debt_ratio,
          mc_fx_depr = fx_depr, mc_capacity_factor = capacity_factor\<rparr>)"




section \<open>Predicates used in the statements\<close>

text \<open>
  A configuration is \<open>covered\<close> when the rates, the principal shares and the initial
  balances are not negative and, in every year of the horizon, the FX rate is positive and
  the operating cash flow is at least the interest due on the initial balances of both
  facilities (the LKR interest converted at that year's rate).
\<close>

definition covered :: "params \<Rightarrow> bool" where
  "covered p \<longleftrightarrow>
     0 \<le> USD_DEBT_INIT p \<and> 0 \<le> LKR_DEBT_INIT p \<and>
     0 \<le> USD_DEBT_RATE p \<and> 0 \<le> LKR_DEBT_RATE p \<and>
     0 \<le> PRINCIPAL_PCT_1_4 p \<and> 0 \<le> PRINCIPAL_PCT_5_ON p \<and>
     (\<forall>y. 1 \<le> y \<and> y \<le> PROJECT_YEARS p \<longrightarrow>
        0 < compute_fx p y \<and>
        (\<exists>c. sched_op_cf p y = Some c \<and>
           USD_DEBT_INIT p * USD_DEBT_RATE p +
           LKR_DEBT_INIT p * LKR_DEBT_RATE p / compute_fx p y \<le> c))"

section \<open>Facts about the cash-flow engine\<close>

text \<open>
  Each scalar function raises exactly when the FX rate of the year is zero (or, for the
  depreciation, when the economic life is zero), and otherwise returns the closed form.
\<close>

lemma fx_nonzero_initial: "compute_fx p y \<noteq> 0 \<Longrightarrow> FX_INITIAL p \<noteq> 0"
  by (auto simp: compute_fx_def)

lemma compute_tariff_usd_eq:
  "compute_tariff_usd p y =
     (if compute_fx p y = 0 then None else Some (TARIFF_LKR_KWH p / compute_fx p y * 1000))"
  by (simp add: compute_tariff_usd_def py_div_def Let_def)

lemma compute_revenue_eq:
  "compute_revenue p y =
     (if compute_fx p y = 0 then None
      else Some (compute_generation p y * (TARIFF_LKR_KWH p / compute_fx p y * 1000) / 1000000))"
  by (simp add: compute_revenue_def compute_tariff_usd_eq Let_def)

lemma compute_sscl_eq:
  "compute_sscl p y =
     (if compute_fx p y = 0 then None
      else Some (compute_generation p y * (TARIFF_LKR_KWH p / compute_fx p y * 1000) / 1000000
                 * SSCL_RATE p))"
  by (simp add: compute_sscl_def compute_revenue_eq)

lemma compute_opex_eq:
  "compute_opex p y =
     (if compute_fx p y = 0 then None
      else Some (compute_generation p y *
             (OPEX_USD_MWH p * OPEX_SPLIT_USD p * (1 + OPEX_ESC_USD p) ^ (y - 1) +
              OPEX_USD_MWH p * OPEX_SPLIT_LKR p * (1 + OPEX_ESC_LKR p) ^ (y - 1) /
                (compute_fx p y / FX_INITIAL p)) / 1000000))"
  using fx_nonzero_initial[of p y]
  by (auto simp: compute_opex_def py_div_def Let_def)

lemma compute_depreciation_eq:
  "compute_depreciation p =
     (if ECON_LIFE p = 0 then None else Some (CAPEX_TOTAL p / real (ECON_LIFE p)))"
  by (simp add: compute_depreciation_def py_div_def)

lemma sched_op_cf_None: "sched_op_cf p y = None \<longleftrightarrow> compute_fx p y = 0 \<or> ECON_LIFE p = 0"
  by (simp add: sched_op_cf_def compute_revenue_eq compute_sscl_eq compute_opex_eq
      compute_depreciation_eq Let_def)

lemma sched_op_cf_eq:
  assumes "compute_fx p y \<noteq> 0" "ECON_LIFE p \<noteq> 0"
  shows "sched_op_cf p y = Some (
     let revenue = compute_generation p y * (TARIFF_LKR_KWH p / compute_fx p y * 1000) / 1000000;
         opex = compute_generation p y *
             (OPEX_USD_MWH p * OPEX_SPLIT_USD p * (1 + OPEX_ESC_USD p) ^ (y - 1) +
              OPEX_USD_MWH p * OPEX_SPLIT_LKR p * (1 + OPEX_ESC_LKR p) ^ (y - 1) /
                (compute_fx p y / FX_INITIAL p)) / 1000000;
         ebitda = revenue - revenue * SSCL_RATE p - opex;
         da = CAPEX_TOTAL p / real (ECON_LIFE p);
         ebit = ebitda - da
     in ebit - max 0 (ebit * TAX_RATE p) + da)"
  using assms
  by (simp add: sched_op_cf_def compute_revenue_eq compute_sscl_eq compute_opex_eq
      compute_depreciation_eq Let_def)

lemma sched_year_None: "sched_year p y s = None \<longleftrightarrow> compute_fx p y = 0 \<or> ECON_LIFE p = 0"
  using sched_op_cf_None[of p y]
  by (auto simp: sched_year_def py_div_def Let_def bind_eq_None_conv)

section \<open>Facts about the scheduler loop\<close>

lemma sched_loop_append:
  "sched_loop p (xs @ ys) s =
     (case sched_loop p xs s of None \<Rightarrow> None | Some s' \<Rightarrow> sched_loop p ys s')"
  by (induction xs arbitrary: s) (auto split: option.splits)

lemma sched_after_0: "sched_after p 0 = Some (sched_init p)"
  by (simp add: sched_after_def)

lemma sched_after_Suc:
  "sched_after p (Suc k) =
     (case sched_after p k of None \<Rightarrow> None | Some s \<Rightarrow> sched_year p (Suc k) s)"
proof -
  have "[1..<Suc (Suc k)] = [1..<Suc k] @ [Suc k]" by simp
  then show ?thesis
    unfolding sched_after_def by (simp only: sched_loop_append) (simp split: option.splits)
qed

lemma sched_after_SucD:
  assumes "sched_after p (Suc k) = Some s'"
  obtains s where "sched_after p k = Some s" "sched_year p (Suc k) s = Some s'"
  using assms by (auto simp: sched_after_Suc split: option.splits)

lemma sched_after_earlier:
  "sched_after p n = Some t \<Longrightarrow> k \<le> n \<Longrightarrow> \<exists>s. sched_after p k = Some s"
proof (induction n arbitrary: t)
  case 0
  then show ?case by simp
next
  case (Suc n)
  then show ?case
    by (cases "k = Suc n") (auto elim!: sched_after_SucD)
qed

lemma sched_after_None_iff:
  "sched_after p k = None \<longleftrightarrow>
     (\<exists>y. 1 \<le> y \<and> y \<le> k \<and> (compute_fx p y = 0 \<or> ECON_LIFE p = 0))"
proof (induction k)
  case 0
  then show ?case by (simp add: sched_after_0)
next
  case (Suc k)
  show ?case
  proof (cases "sched_after p k")
    case None
    with Suc show ?thesis
      by (auto simp: sched_after_Suc intro: le_SucI)
  next
    case (Some s)
    with Suc have no: "\<not> (\<exists>y. 1 \<le> y \<and> y \<le> k \<and> (compute_fx p y = 0 \<or> ECON_LIFE p = 0))"
      by simp
    have "sched_after p (Suc k) = None \<longleftrightarrow> compute_fx p (Suc k) = 0 \<or> ECON_LIFE p = 0"
      by (simp add: sched_after_Suc Some sched_year_None)
    with no show ?thesis
      by (metis le_Suc_eq le_add1 plus_1_eq_Suc order_refl)
  qed
qed

text \<open>What one iteration appends and how it moves the balances.\<close>

lemma sched_year_SomeD:
  assumes "sched_year p y s = Some s'"
  obtains c where
    "sched_op_cf p y = Some c"
    "compute_fx p y \<noteq> 0"
    "usd_principal_hist s' = usd_principal_hist s @
       [usd_policy p y (usd_bal s)
          (c - usd_bal s * USD_DEBT_RATE p - lkr_bal s * LKR_DEBT_RATE p / compute_fx p y)]"
    "usd_interest_hist s' = usd_interest_hist s @ [usd_bal s * USD_DEBT_RATE p]"
    "lkr_principal_hist s' = lkr_principal_hist s @ [lkr_policy p y (lkr_bal s)]"
    "lkr_interest_hist s' = lkr_interest_hist s @ [lkr_bal s * LKR_DEBT_RATE p]"
    "lkr_ds_hist s' = lkr_ds_hist s @ [lkr_bal s * LKR_DEBT_RATE p + lkr_policy p y (lkr_bal s)]"
    "usd_bal s' = max 0 (usd_bal s - usd_policy p y (usd_bal s)
          (c - usd_bal s * USD_DEBT_RATE p - lkr_bal s * LKR_DEBT_RATE p / compute_fx p y))"
    "lkr_bal s' = max 0 (lkr_bal s - lkr_policy p y (lkr_bal s))"
  using assms
  by (auto simp: sched_year_def Let_def py_div_def bind_eq_Some_conv split: if_splits)

lemma sched_after_length:
  "sched_after p k = Some s \<Longrightarrow>
     length (usd_principal_hist s) = k \<and> length (usd_interest_hist s) = k \<and>
     length (lkr_principal_hist s) = k \<and> length (lkr_interest_hist s) = k \<and>
     length (lkr_ds_hist s) = k"
proof (induction k arbitrary: s)
  case 0
  then show ?case by (auto simp: sched_after_0 sched_init_def)
next
  case (Suc k)
  from Suc.prems obtain s0 where s0: "sched_after p k = Some s0" "sched_year p (Suc k) s0 = Some s"
    by (rule sched_after_SucD)
  from s0(2) Suc.IH[OF s0(1)] show ?case
    by (auto elim!: sched_year_SomeD)
qed

lemma sched_after_prefix:
  "sched_after p n = Some t \<Longrightarrow> sched_after p k = Some s \<Longrightarrow> k \<le> n \<Longrightarrow>
     take k (usd_principal_hist t) = usd_principal_hist s \<and>
     take k (usd_interest_hist t) = usd_interest_hist s \<and>
     take k (lkr_principal_hist t) = lkr_principal_hist s \<and>
     take k (lkr_interest_hist t) = lkr_interest_hist s \<and>
     take k (lkr_ds_hist t) = lkr_ds_hist s"
proof (induction n arbitrary: t)
  case 0
  then show ?case by (auto simp: sched_after_0 sched_init_def)
next
  case (Suc n)
  show ?case
  proof (cases "k = Suc n")
    case True
    with Suc.prems sched_after_length[of p k s] show ?thesis by auto
  next
    case False
    with Suc.prems have kn: "k \<le> n" by simp
    from Suc.prems(1) obtain t0 where t0: "sched_after p n = Some t0" "sched_year p (Suc n) t0 = Some t"
      by (rule sched_after_SucD)
    note len = sched_after_length[OF t0(1)]
    from t0(2) show ?thesis
      using Suc.IH[OF t0(1) Suc.prems(2) kn] len kn
      by (elim sched_year_SomeD) simp
  qed
qed

lemma compute_debt_schedule_SomeD:
  assumes "compute_debt_schedule p = Some (usd_prin, usd_int, lkr_prin, lkr_int, lkr_ds)"
  obtains s where "sched_after p (PROJECT_YEARS p) = Some s"
    "usd_prin = usd_principal_hist s" "usd_int = usd_interest_hist s"
    "lkr_prin = lkr_principal_hist s" "lkr_int = lkr_interest_hist s" "lkr_ds = lkr_ds_hist s"
  using assms by (auto simp: compute_debt_schedule_def bind_eq_Some_conv)

lemma compute_debt_schedule_None_iff:
  "compute_debt_schedule p = None \<longleftrightarrow>
     (\<exists>y. 1 \<le> y \<and> y \<le> PROJECT_YEARS p \<and> (compute_fx p y = 0 \<or> ECON_LIFE p = 0))"
  by (simp add: compute_debt_schedule_def bind_eq_None_conv sched_after_None_iff)

lemma usd_policy_year1: "usd_policy p (Suc 0) bal avail = 0"
  by (simp add: usd_policy_def)

lemma sched_after_1_principal:
  assumes "sched_after p 1 = Some s"
  shows "usd_principal_hist s = [0]"
proof -
  from assms have "sched_year p (Suc 0) (sched_init p) = Some s"
    by (simp add: sched_after_Suc sched_after_0)
  then show ?thesis
    by (elim sched_year_SomeD) (simp add: usd_policy_year1 sched_init_def)
qed

lemma first_year_principal:
  assumes "compute_debt_schedule p = Some (usd_prin, usd_int, lkr_prin, lkr_int, lkr_ds)"
    and "0 < PROJECT_YEARS p"
  shows "usd_prin ! 0 = 0"
proof -
  from assms(1) obtain t where t: "sched_after p (PROJECT_YEARS p) = Some t"
    and up: "usd_prin = usd_principal_hist t"
    by (rule compute_debt_schedule_SomeD)
  from assms(2) have le: "1 \<le> PROJECT_YEARS p" by simp
  from sched_after_earlier[OF t le] obtain s where s: "sched_after p 1 = Some s" ..
  from sched_after_prefix[OF t s le] have "take 1 (usd_principal_hist t) = usd_principal_hist s"
    by simp
  with sched_after_1_principal[OF s] have "take 1 (usd_principal_hist t) = [0]" by simp
  moreover from sched_after_length[OF t] assms(2) have "usd_principal_hist t \<noteq> []" by auto
  ultimately show ?thesis
    unfolding up by (cases "usd_principal_hist t") auto
qed

lemma schedule_entry:
  assumes sch: "compute_debt_schedule p = Some (usd_prin, usd_int, lkr_prin, lkr_int, lkr_ds)"
    and k: "k < PROJECT_YEARS p"
    and s: "sched_after p k = Some s"
    and c: "sched_op_cf p (Suc k) = Some c"
  shows "usd_prin ! k = usd_policy p (Suc k) (usd_bal s)
           (c - usd_bal s * USD_DEBT_RATE p - lkr_bal s * LKR_DEBT_RATE p / compute_fx p (Suc k))"
    and "usd_int ! k = usd_bal s * USD_DEBT_RATE p"
    and "lkr_prin ! k = lkr_policy p (Suc k) (lkr_bal s)"
    and "lkr_int ! k = lkr_bal s * LKR_DEBT_RATE p"
proof -
  from sch obtain t where t: "sched_after p (PROJECT_YEARS p) = Some t"
    and h: "usd_prin = usd_principal_hist t" "usd_int = usd_interest_hist t"
      "lkr_prin = lkr_principal_hist t" "lkr_int = lkr_interest_hist t"
    by (rule compute_debt_schedule_SomeD)
  from k have le: "Suc k \<le> PROJECT_YEARS p" by simp
  from sched_after_earlier[OF t le] obtain s' where s': "sched_after p (Suc k) = Some s'" ..
  with s have step: "sched_year p (Suc k) s = Some s'" by (simp add: sched_after_Suc)
  note pre = sched_after_prefix[OF t s' le]
  note len = sched_after_length[OF s]
  have nth: "xs ! k = ys ! k" if "take (Suc k) xs = ys" for xs ys :: "real list"
    using that by (metis lessI nth_take)
  from pre have
    "usd_principal_hist t ! k = usd_principal_hist s' ! k"
    "usd_interest_hist t ! k = usd_interest_hist s' ! k"
    "lkr_principal_hist t ! k = lkr_principal_hist s' ! k"
    "lkr_interest_hist t ! k = lkr_interest_hist s' ! k"
    by (auto intro: nth)
  with step c len h
  show "usd_prin ! k = usd_policy p (Suc k) (usd_bal s)
           (c - usd_bal s * USD_DEBT_RATE p - lkr_bal s * LKR_DEBT_RATE p / compute_fx p (Suc k))"
    and "usd_int ! k = usd_bal s * USD_DEBT_RATE p"
    and "lkr_prin ! k = lkr_policy p (Suc k) (lkr_bal s)"
    and "lkr_int ! k = lkr_bal s * LKR_DEBT_RATE p"
    by (auto elim!: sched_year_SomeD simp: nth_append)
qed

text \<open>The schedule does not read the grace period anywhere but in the year-1 branch.\<close>

lemma sched_year_grace: "sched_year (p\<lparr>GRACE_PERIOD := g\<rparr>) y s = sched_year p y s"
proof -
  have pol: "usd_policy (p\<lparr>GRACE_PERIOD := g\<rparr>) y bal avail = usd_policy p y bal avail" for bal avail
    by (simp add: usd_policy_def)
  show ?thesis
    unfolding sched_year_def pol
    by (simp add: sched_op_cf_def compute_revenue_def
      compute_sscl_def compute_opex_def compute_tariff_usd_def compute_fx_def
      compute_generation_def compute_depreciation_def lkr_policy_def)
qed

lemma sched_loop_grace: "sched_loop (p\<lparr>GRACE_PERIOD := g\<rparr>) ys s = sched_loop p ys s"
  by (induction ys arbitrary: s) (simp_all add: sched_year_grace cong: option.case_cong)

lemma compute_debt_schedule_grace:
  "compute_debt_schedule (p\<lparr>GRACE_PERIOD := g\<rparr>) = compute_debt_schedule p"
  by (simp add: compute_debt_schedule_def sched_after_def sched_loop_grace sched_init_def)

text \<open>Ranges of the two principal policies, and the step under a non-negative available cash flow.\<close>

lemma usd_policy_range:
  assumes "0 \<le> bal" "0 \<le> avail" "0 \<le> PRINCIPAL_PCT_1_4 p" "0 \<le> PRINCIPAL_PCT_5_ON p"
  shows "0 \<le> usd_policy p y bal avail" "usd_policy p y bal avail \<le> bal"
  using assms by (auto simp: usd_policy_def min_def)

lemma lkr_policy_range:
  assumes "0 \<le> bal"
  shows "0 \<le> lkr_policy p y bal" "lkr_policy p y bal \<le> bal"
proof -
  show "0 \<le> lkr_policy p y bal" using assms by (simp add: lkr_policy_def)
  have "bal / real (LKR_DEBT_TENOR p - y + 1) \<le> bal / 1"
    using assms by (intro divide_left_mono) simp_all
  then have "bal / real (LKR_DEBT_TENOR p - y + 1) \<le> bal" by (simp only: div_by_1)
  with assms show "lkr_policy p y bal \<le> bal" by (simp only: lkr_policy_def split: if_split) simp
qed

lemma sched_year_nonneg:
  assumes "sched_year p y s = Some s'"
  shows "0 \<le> usd_bal s'" "0 \<le> lkr_bal s'"
  using assms by (auto elim!: sched_year_SomeD)

lemma sched_year_lkr_mono:
  assumes "sched_year p y s = Some s'" "0 \<le> lkr_bal s"
  shows "lkr_bal s' \<le> lkr_bal s"
  using assms lkr_policy_range[OF assms(2), of p y] by (auto elim!: sched_year_SomeD)

lemma sched_year_usd_mono:
  assumes "sched_year p y s = Some s'" "0 \<le> usd_bal s" "0 \<le> last (usd_principal_hist s')"
  shows "usd_bal s' \<le> usd_bal s"
  using assms by (auto elim!: sched_year_SomeD)

lemma sched_year_covered:
  assumes step: "sched_year p y s = Some s'"
    and rates: "0 \<le> USD_DEBT_RATE p" "0 \<le> LKR_DEBT_RATE p"
    and pcts: "0 \<le> PRINCIPAL_PCT_1_4 p" "0 \<le> PRINCIPAL_PCT_5_ON p"
    and fx: "0 < compute_fx p y"
    and bal: "0 \<le> usd_bal s" "usd_bal s \<le> USD_DEBT_INIT p" "0 \<le> lkr_bal s" "lkr_bal s \<le> LKR_DEBT_INIT p"
    and cov: "sched_op_cf p y = Some c"
      "USD_DEBT_INIT p * USD_DEBT_RATE p + LKR_DEBT_INIT p * LKR_DEBT_RATE p / compute_fx p y \<le> c"
  shows "0 \<le> usd_bal s'" "usd_bal s' \<le> usd_bal s" "0 \<le> lkr_bal s'" "lkr_bal s' \<le> lkr_bal s"
    "0 \<le> last (usd_principal_hist s')"
proof -
  let ?avail = "c - usd_bal s * USD_DEBT_RATE p - lkr_bal s * LKR_DEBT_RATE p / compute_fx p y"
  have u: "usd_bal s * USD_DEBT_RATE p \<le> USD_DEBT_INIT p * USD_DEBT_RATE p"
    using bal(2) rates(1) by (rule mult_right_mono)
  have "lkr_bal s * LKR_DEBT_RATE p \<le> LKR_DEBT_INIT p * LKR_DEBT_RATE p"
    using bal(4) rates(2) by (rule mult_right_mono)
  then have l: "lkr_bal s * LKR_DEBT_RATE p / compute_fx p y
      \<le> LKR_DEBT_INIT p * LKR_DEBT_RATE p / compute_fx p y"
    using fx by (intro divide_right_mono) simp_all
  from u l cov(2) have avail: "0 \<le> ?avail" by linarith
  note up = usd_policy_range[OF bal(1) avail pcts, of y]
  note lp = lkr_policy_range[OF bal(3), of p y]
  from step cov(1) up lp
  show "0 \<le> usd_bal s'" "usd_bal s' \<le> usd_bal s" "0 \<le> lkr_bal s'" "lkr_bal s' \<le> lkr_bal s"
    "0 \<le> last (usd_principal_hist s')"
    by (auto elim!: sched_year_SomeD)
qed

lemma covered_invariant:
  assumes "covered p" "k \<le> PROJECT_YEARS p"
  shows "\<exists>s. sched_after p k = Some s \<and> 0 \<le> usd_bal s \<and> usd_bal s \<le> USD_DEBT_INIT p \<and>
              0 \<le> lkr_bal s \<and> lkr_bal s \<le> LKR_DEBT_INIT p"
  using assms(2)
proof (induction k)
  case 0
  with assms(1) show ?case by (simp add: sched_after_0 sched_init_def covered_def)
next
  case (Suc k)
  then obtain s where s: "sched_after p k = Some s" and b: "0 \<le> usd_bal s" "usd_bal s \<le> USD_DEBT_INIT p"
    "0 \<le> lkr_bal s" "lkr_bal s \<le> LKR_DEBT_INIT p" by auto
  from assms(1) Suc.prems obtain c where fx: "0 < compute_fx p (Suc k)"
    and c: "sched_op_cf p (Suc k) = Some c"
      "USD_DEBT_INIT p * USD_DEBT_RATE p +
           LKR_DEBT_INIT p * LKR_DEBT_RATE p / compute_fx p (Suc k) \<le> c"
    unfolding covered_def by (metis le_add1 plus_1_eq_Suc)
  from c(1) have "sched_op_cf p (Suc k) \<noteq> None" by simp
  then have "sched_year p (Suc k) s \<noteq> None"
    by (simp only: sched_year_None sched_op_cf_None) simp
  then obtain s' where s': "sched_year p (Suc k) s = Some s'" by auto
  from assms(1) have r: "0 \<le> USD_DEBT_RATE p" "0 \<le> LKR_DEBT_RATE p"
    "0 \<le> PRINCIPAL_PCT_1_4 p" "0 \<le> PRINCIPAL_PCT_5_ON p" by (simp_all add: covered_def)
  note st = sched_year_covered[OF s' r fx b c]
  have "sched_after p (Suc k) = Some s'" by (simp add: sched_after_Suc s s')
  with st b show ?case by auto
qed

lemma covered_monotone:
  assumes "covered p" "k < PROJECT_YEARS p"
  shows "\<exists>s s'. sched_after p k = Some s \<and> sched_after p (Suc k) = Some s' \<and>
      0 \<le> usd_bal s' \<and> usd_bal s' \<le> usd_bal s \<and> 0 \<le> lkr_bal s' \<and> lkr_bal s' \<le> lkr_bal s \<and>
      0 \<le> last (usd_principal_hist s')"
proof -
  from assms have k: "k \<le> PROJECT_YEARS p" "Suc k \<le> PROJECT_YEARS p" by simp_all
  from covered_invariant[OF assms(1) k(1)] obtain s where s: "sched_after p k = Some s"
    and b: "0 \<le> usd_bal s" "usd_bal s \<le> USD_DEBT_INIT p" "0 \<le> lkr_bal s" "lkr_bal s \<le> LKR_DEBT_INIT p"
    by auto
  from covered_invariant[OF assms(1) k(2)] obtain s' where s': "sched_after p (Suc k) = Some s'"
    by auto
  with s have step: "sched_year p (Suc k) s = Some s'" by (simp add: sched_after_Suc)
  from assms(1) k(2) obtain c where fx: "0 < compute_fx p (Suc k)"
    and c: "sched_op_cf p (Suc k) = Some c"
      "USD_DEBT_INIT p * USD_DEBT_RATE p +
           LKR_DEBT_INIT p * LKR_DEBT_RATE p / compute_fx p (Suc k) \<le> c"
    unfolding covered_def by (metis le_add1 plus_1_eq_Suc)
  from assms(1) have r: "0 \<le> USD_DEBT_RATE p" "0 \<le> LKR_DEBT_RATE p"
    "0 \<le> PRINCIPAL_PCT_1_4 p" "0 \<le> PRINCIPAL_PCT_5_ON p" by (simp_all add: covered_def)
  from sched_year_covered[OF step r fx b c] s s' show ?thesis by blast
qed

section \<open>The configuration of the source\<close>

text \<open>
  For the constants of the source the operating cash flow of every year up to year 20 is at
  least 8 (USD M): the degradation and FX powers are bounded by their values at exponent 19.
  The interest on the initial balances is at most 7.18, so the configuration is covered.
\<close>

lemma nominal_fx: "compute_fx nominal y = 300 * (103 / 100) ^ (y - 1)"
  by (simp add: compute_fx_def nominal_def)

lemma nominal_fx_pos: "300 \<le> compute_fx nominal y"
proof -
  have "(1::real) \<le> (103 / 100) ^ (y - 1)" by (rule one_le_power) simp
  then show ?thesis by (simp add: nominal_fx)
qed

lemma nominal_fx_nonzero: "compute_fx nominal y \<noteq> 0"
  using nominal_fx_pos[of y] by simp

lemma nominal_years: "PROJECT_YEARS nominal = 20" "ECON_LIFE nominal = 20"
  "CAPEX_TOTAL nominal = 14638 / 100"
  by (simp_all add: nominal_def)

lemma pow19_bounds:
  "(89 / 100 :: real) \<le> (497 / 500) ^ 19" "((103 / 100) ^ 19 :: real) \<le> 176 / 100"
  "((51 / 50) ^ 19 :: real) \<le> 146 / 100" "((21 / 20) ^ 19 :: real) \<le> 253 / 100"
  by (simp_all add: power_divide)

lemma nominal_op_cf_bound:
  assumes "y \<le> 20"
  shows "\<exists>c. sched_op_cf nominal y = Some c \<and> 8 \<le> c"
proof -
  define n where "n = y - 1"
  from assms have n: "n \<le> 19" by (simp add: n_def)
  define a b c d :: real where
    "a = (497 / 500) ^ n" and "b = (103 / 100) ^ n" and "c = (51 / 50) ^ n" and "d = (21 / 20) ^ n"
  have a: "89 / 100 \<le> a" "a \<le> 1"
  proof -
    have "(497 / 500 :: real) ^ 19 \<le> (497 / 500) ^ n"
      using n by (intro power_decreasing) simp_all
    with pow19_bounds(1) show "89 / 100 \<le> a" by (simp only: a_def)
    show "a \<le> 1" unfolding a_def by (intro power_le_one) simp_all
  qed
  have up: "1 \<le> x ^ n \<and> x ^ n \<le> u" if "1 \<le> x" "x ^ 19 \<le> u" for x u :: real
  proof -
    from that(1) n have "1 \<le> x ^ n" "x ^ n \<le> x ^ 19"
      by (simp_all add: one_le_power power_increasing)
    with that(2) show ?thesis by simp
  qed
  have b: "1 \<le> b" "b \<le> 176 / 100"
    using up[OF _ pow19_bounds(2)] by (simp_all add: b_def)
  have c: "1 \<le> c" "c \<le> 146 / 100"
    using up[OF _ pow19_bounds(3)] by (simp_all add: c_def)
  have d: "1 \<le> d" "d \<le> 253 / 100"
    using up[OF _ pow19_bounds(4)] by (simp_all add: d_def)
  define r where "r = a / b"
  define ox where "ox = a * (2049 / 1000 * c + 4781 / 1000 * (d / b))"
  have r: "89 / 176 \<le> r"
  proof -
    have "(89 / 100) / (176 / 100) \<le> a / b"
      using a b by (intro frac_le) simp_all
    then show ?thesis by (simp only: r_def) simp
  qed
  have db: "d / b \<le> 253 / 100" "0 \<le> d / b"
  proof -
    have "d / b \<le> d / 1" using b d by (intro divide_left_mono) simp_all
    then have "d / b \<le> d" by simp
    with d(2) show "d / b \<le> 253 / 100" by linarith
    show "0 \<le> d / b" using b d by simp
  qed
  have ox: "ox \<le> 2049 / 1000 * (146 / 100) + 4781 / 1000 * (253 / 100)"
  proof -
    let ?X = "2049 / 1000 * c + 4781 / 1000 * (d / b)"
    have X: "0 \<le> ?X" "?X \<le> 2049 / 1000 * (146 / 100) + 4781 / 1000 * (253 / 100)"
      using c db by simp_all
    have "a * ?X \<le> 1 * ?X" using a X(1) by (intro mult_right_mono) simp_all
    with X(2) show ?thesis by (simp add: ox_def)
  qed
  have fx: "compute_fx nominal y \<noteq> 0" using nominal_fx_pos[of y] by simp
  have el: "ECON_LIFE nominal \<noteq> 0" by (simp add: nominal_def)
  have gen: "compute_generation nominal y = 525600 * a"
    by (simp add: compute_generation_def nominal_def a_def n_def)
  have fxv: "compute_fx nominal y = 300 * b"
    by (simp add: nominal_fx b_def n_def)
  have rev: "525600 * a * (2036 / 100 / (300 * b) * 1000) / 1000000 = 3567072 / 100000 * r"
    using b by (simp add: r_def)
  have opx: "525600 * a * (683 / 100 * (3 / 10) * c + 683 / 100 * (7 / 10) * d / (300 * b / 300))
               / 1000000 = 5256 / 10000 * ox"
    using b by (simp add: ox_def algebra_simps)
  define E where "E = 3567072 / 100000 * r - 3567072 / 100000 * r * (25 / 1000) - 5256 / 10000 * ox"
  have "sched_op_cf nominal y = Some (
     let revenue = 525600 * a * (2036 / 100 / (300 * b) * 1000) / 1000000;
         opex = 525600 * a * (683 / 100 * (3 / 10) * c + 683 / 100 * (7 / 10) * d / (300 * b / 300))
               / 1000000;
         ebitda = revenue - revenue * (25 / 1000) - opex;
         da = 14638 / 100 / 20;
         ebit = ebitda - da
     in ebit - max 0 (ebit * (30 / 100)) + da)"
    unfolding sched_op_cf_eq[OF fx el] gen fxv
    by (simp add: nominal_def c_def d_def n_def Let_def)
  then have eq: "sched_op_cf nominal y =
      Some (E - 14638 / 100 / 20 - max 0 ((E - 14638 / 100 / 20) * (30 / 100)) + 14638 / 100 / 20)"
    unfolding Let_def rev opx E_def .
  have E: "96 / 10 \<le> E"
    unfolding E_def using r ox by linarith
  have "0 \<le> (E - 14638 / 100 / 20) * (30 / 100)"
    using E by (simp add: zero_le_mult_iff)
  then have "max 0 ((E - 14638 / 100 / 20) * (30 / 100)) = (E - 14638 / 100 / 20) * (30 / 100)"
    by (rule max_absorb2)
  then have "8 \<le> E - 14638 / 100 / 20 - max 0 ((E - 14638 / 100 / 20) * (30 / 100)) + 14638 / 100 / 20"
    using E by (simp add: algebra_simps)
  with eq show ?thesis by blast
qed

lemma nominal_covered: "covered nominal"
proof -
  have "0 < compute_fx nominal y \<and>
        (\<exists>c. sched_op_cf nominal y = Some c \<and>
           USD_DEBT_INIT nominal * USD_DEBT_RATE nominal +
           LKR_DEBT_INIT nominal * LKR_DEBT_RATE nominal / compute_fx nominal y \<le> c)"
    if "y \<le> 20" for y
  proof -
    from nominal_op_cf_bound[OF that] obtain c where c: "sched_op_cf nominal y = Some c" "8 \<le> c"
      by blast
    have fx: "300 \<le> compute_fx nominal y" by (rule nominal_fx_pos)
    have "96831 / 100 / compute_fx nominal y \<le> 96831 / 100 / 300"
      using fx by (intro divide_left_mono) simp_all
    then have "5636 / 100 * (7 / 100) + 13833 * (7 / 100) / compute_fx nominal y \<le> 8"
      by simp
    with c fx show ?thesis by (auto simp: nominal_def)
  qed
  then show ?thesis
    unfolding covered_def by (simp add: nominal_def)
qed

lemma nominal_balances:
  assumes "j < 20"
  shows "\<exists>s s'. sched_after nominal j = Some s \<and> sched_after nominal (Suc j) = Some s' \<and>
           0 \<le> usd_bal s' \<and> usd_bal s' \<le> usd_bal s \<and>
           0 \<le> lkr_bal s' \<and> lkr_bal s' \<le> lkr_bal s"
proof -
  from assms have "j < PROJECT_YEARS nominal" by (simp add: nominal_def)
  from covered_monotone[OF nominal_covered this] show ?thesis by blast
qed

lemma nominal_schedule_returns: "compute_debt_schedule nominal \<noteq> None"
proof -
  have "ECON_LIFE nominal \<noteq> 0" by (simp add: nominal_def)
  then show ?thesis
    by (simp add: compute_debt_schedule_None_iff nominal_fx_nonzero)
qed


section \<open>Facts about the ledger\<close>

lemma those_map_Some:
  "those (map f xs) = Some ys \<Longrightarrow> length ys = length xs \<and> (\<forall>i<length xs. f (xs ! i) = Some (ys ! i))"
proof (induction xs arbitrary: ys)
  case Nil
  then show ?case by simp
next
  case (Cons x xs)
  then obtain y ys' where f: "f x = Some y" and t: "those (map f xs) = Some ys'" and ys: "ys = y # ys'"
    by (auto split: option.splits)
  from Cons.IH[OF t] f ys show ?case
    by (auto simp: nth_Cons split: nat.splits)
qed

lemma those_map_total:
  "(\<And>x. x \<in> set xs \<Longrightarrow> f x = Some (g x)) \<Longrightarrow> those (map f xs) = Some (map g xs)"
  by (induction xs) auto

lemma years_nth: "i < n \<Longrightarrow> [1..<Suc n] ! i = Suc i"
  by (simp add: nth_upt del: upt_Suc)

lemma those_years_Some:
  assumes "those (map f [1..<Suc n]) = Some ys"
  shows "length ys = n" and "i < n \<Longrightarrow> f (Suc i) = Some (ys ! i)"
proof -
  from those_map_Some[OF assms] have l: "length ys = length [1..<Suc n]"
    and e: "\<forall>i<length [1..<Suc n]. f ([1..<Suc n] ! i) = Some (ys ! i)" by blast+
  from l show "length ys = n" by (simp del: upt_Suc)
  assume "i < n"
  with e have "f ([1..<Suc n] ! i) = Some (ys ! i)" by (simp del: upt_Suc)
  with \<open>i < n\<close> show "f (Suc i) = Some (ys ! i)" by (simp only: years_nth)
qed

lemma build_full_model_SomeD:
  assumes "build_full_model p = Some df"
  obtains tariff_usd revenue sscl opex d usd_prin usd_int lkr_prin lkr_int lkr_ds where
    "those (map (compute_tariff_usd p) [1..<Suc (PROJECT_YEARS p)]) = Some tariff_usd"
    "those (map (compute_revenue p) [1..<Suc (PROJECT_YEARS p)]) = Some revenue"
    "those (map (compute_sscl p) [1..<Suc (PROJECT_YEARS p)]) = Some sscl"
    "those (map (compute_opex p) [1..<Suc (PROJECT_YEARS p)]) = Some opex"
    "compute_depreciation p = Some d"
    "compute_debt_schedule p = Some (usd_prin, usd_int, lkr_prin, lkr_int, lkr_ds)"
    "Revenue_USD_M df = revenue" "SSCL_USD_M df = sscl" "OPEX_USD_M df = opex"
    "Tariff_USD_MWh df = tariff_usd"
    "FX df = map (compute_fx p) [1..<Suc (PROJECT_YEARS p)]"
    "DA df = map (\<lambda>one. d * one) (replicate (PROJECT_YEARS p) 1)"
    "EBITDA df = map2 (-) (map2 (-) revenue sscl) opex"
    "EBIT df = map2 (-) (EBITDA df) (DA df)"
    "Tax df = map (\<lambda>x. max 0 (x * TAX_RATE p)) (EBIT df)"
    "Op_CF df = map2 (+) (map2 (-) (EBIT df) (Tax df)) (DA df)"
    "USD_Int df = usd_int" "USD_Prin df = usd_prin"
    "LKR_Int df = map2 (/) lkr_int (FX df)"
    "LKR_Prin df = map2 (/) lkr_prin (FX df)"
    "Total_DS df = map2 (+) (map2 (+) (map2 (+) usd_int usd_prin) (LKR_Int df)) (LKR_Prin df)"
    "DSCR df = np_where (map (\<lambda>ds. 1 / 1000000 < ds) (Total_DS df)) (map2 np_divide (Op_CF df) (Total_DS df)) NaN"
    "Eq_CF df = map2 (-) (Op_CF df) (Total_DS df)"
  using assms
  by (auto simp: build_full_model_def Let_def bind_eq_Some_conv split: prod.splits)

lemma build_full_model_DA:
  assumes "build_full_model p = Some df"
  shows "ECON_LIFE p \<noteq> 0 \<and> DA df = replicate (PROJECT_YEARS p) (CAPEX_TOTAL p / real (ECON_LIFE p))"
  using assms
  by (auto simp: build_full_model_def Let_def bind_eq_Some_conv compute_depreciation_eq
      split: prod.splits if_splits)

lemma build_full_model_cols:
  assumes df: "build_full_model p = Some df" and i: "i < PROJECT_YEARS p"
  shows "compute_fx p (Suc i) \<noteq> 0"
    and "ECON_LIFE p \<noteq> 0"
    and "FX df ! i = compute_fx p (Suc i)"
    and "compute_revenue p (Suc i) = Some (Revenue_USD_M df ! i)"
    and "compute_sscl p (Suc i) = Some (SSCL_USD_M df ! i)"
    and "compute_opex p (Suc i) = Some (OPEX_USD_M df ! i)"
    and "compute_depreciation p = Some (DA df ! i)"
    and "EBITDA df ! i = Revenue_USD_M df ! i - SSCL_USD_M df ! i - OPEX_USD_M df ! i"
    and "EBIT df ! i = EBITDA df ! i - DA df ! i"
    and "Tax df ! i = max 0 (EBIT df ! i * TAX_RATE p)"
    and "Op_CF df ! i = EBIT df ! i - Tax df ! i + DA df ! i"
proof -
  let ?ys = "[1..<Suc (PROJECT_YEARS p)]"
  have len: "length ?ys = PROJECT_YEARS p" by simp
  from df obtain tariff_usd revenue sscl opex d usd_prin usd_int lkr_prin lkr_int lkr_ds where
    t: "those (map (compute_tariff_usd p) ?ys) = Some tariff_usd" and
    r: "those (map (compute_revenue p) ?ys) = Some revenue" and
    s: "those (map (compute_sscl p) ?ys) = Some sscl" and
    opx: "those (map (compute_opex p) ?ys) = Some opex" and
    d: "compute_depreciation p = Some d" and
    cols: "Revenue_USD_M df = revenue" "SSCL_USD_M df = sscl" "OPEX_USD_M df = opex"
      "FX df = map (compute_fx p) ?ys"
      "DA df = map (\<lambda>one. d * one) (replicate (PROJECT_YEARS p) 1)"
      "EBITDA df = map2 (-) (map2 (-) revenue sscl) opex"
      "EBIT df = map2 (-) (EBITDA df) (DA df)"
      "Tax df = map (\<lambda>x. max 0 (x * TAX_RATE p)) (EBIT df)"
      "Op_CF df = map2 (+) (map2 (-) (EBIT df) (Tax df)) (DA df)"
    by (rule build_full_model_SomeD)
  note T = those_years_Some[OF t] and R = those_years_Some[OF r]
    and S = those_years_Some[OF s] and O = those_years_Some[OF opx]
  from T(2)[OF i] have "compute_tariff_usd p (Suc i) \<noteq> None" by simp
  then show fx: "compute_fx p (Suc i) \<noteq> 0" by (simp add: compute_tariff_usd_eq split: if_splits)
  from d show "ECON_LIFE p \<noteq> 0" by (simp add: compute_depreciation_eq split: if_splits)
  from i show "FX df ! i = compute_fx p (Suc i)"
    by (simp add: cols(4) nth_map [where xs = "[1..<Suc (PROJECT_YEARS p)]"] years_nth del: upt_Suc)
  from R(2)[OF i] show "compute_revenue p (Suc i) = Some (Revenue_USD_M df ! i)"
    by (simp add: cols)
  from S(2)[OF i] show "compute_sscl p (Suc i) = Some (SSCL_USD_M df ! i)"
    by (simp add: cols)
  from O(2)[OF i] show "compute_opex p (Suc i) = Some (OPEX_USD_M df ! i)"
    by (simp add: cols)
  from d i show "compute_depreciation p = Some (DA df ! i)" by (simp add: cols)
  from R(1) S(1) O(1) i show "EBITDA df ! i = Revenue_USD_M df ! i - SSCL_USD_M df ! i - OPEX_USD_M df ! i"
    by (simp add: cols)
  from R(1) S(1) O(1) i have l1: "i < length (EBITDA df)" by (simp add: cols)
  have l2: "i < length (DA df)" using i by (simp add: cols)
  from l1 l2 show "EBIT df ! i = EBITDA df ! i - DA df ! i" by (simp add: cols(7))
  from l1 l2 have l3: "i < length (EBIT df)" by (simp add: cols(7))
  then show "Tax df ! i = max 0 (EBIT df ! i * TAX_RATE p)" by (simp add: cols(8))
  from l3 l2 show "Op_CF df ! i = EBIT df ! i - Tax df ! i + DA df ! i"
    by (simp add: cols(9) cols(8))
qed

lemma build_full_model_debt_cols:
  assumes df: "build_full_model p = Some df" and i: "i < PROJECT_YEARS p"
  obtains usd_prin usd_int lkr_prin lkr_int lkr_ds where
    "compute_debt_schedule p = Some (usd_prin, usd_int, lkr_prin, lkr_int, lkr_ds)"
    "USD_Int df ! i = usd_int ! i"
    "USD_Prin df ! i = usd_prin ! i"
    "LKR_Int df ! i = lkr_int ! i / compute_fx p (Suc i)"
    "LKR_Prin df ! i = lkr_prin ! i / compute_fx p (Suc i)"
    "Total_DS df ! i = USD_Int df ! i + USD_Prin df ! i + LKR_Int df ! i + LKR_Prin df ! i"
    "Eq_CF df ! i = Op_CF df ! i - Total_DS df ! i"
    "DSCR df ! i = (if 1 / 1000000 < Total_DS df ! i
                    then np_divide (Op_CF df ! i) (Total_DS df ! i) else NaN)"
proof -
  let ?n = "PROJECT_YEARS p"
  let ?ys = "[1..<Suc ?n]"
  from df obtain tariff_usd revenue sscl opex d usd_prin usd_int lkr_prin lkr_int lkr_ds where
    r: "those (map (compute_revenue p) ?ys) = Some revenue" and
    s: "those (map (compute_sscl p) ?ys) = Some sscl" and
    opx: "those (map (compute_opex p) ?ys) = Some opex" and
    sch: "compute_debt_schedule p = Some (usd_prin, usd_int, lkr_prin, lkr_int, lkr_ds)" and
    cols: "FX df = map (compute_fx p) ?ys"
      "DA df = map (\<lambda>one. d * one) (replicate ?n 1)"
      "EBITDA df = map2 (-) (map2 (-) revenue sscl) opex"
      "EBIT df = map2 (-) (EBITDA df) (DA df)"
      "Tax df = map (\<lambda>x. max 0 (x * TAX_RATE p)) (EBIT df)"
      "Op_CF df = map2 (+) (map2 (-) (EBIT df) (Tax df)) (DA df)" and
    dcols: "USD_Int df = usd_int" "USD_Prin df = usd_prin"
      "LKR_Int df = map2 (/) lkr_int (FX df)"
      "LKR_Prin df = map2 (/) lkr_prin (FX df)"
      "Total_DS df = map2 (+) (map2 (+) (map2 (+) usd_int usd_prin) (LKR_Int df)) (LKR_Prin df)"
      "DSCR df = np_where (map (\<lambda>ds. 1 / 1000000 < ds) (Total_DS df))
                   (map2 np_divide (Op_CF df) (Total_DS df)) NaN"
      "Eq_CF df = map2 (-) (Op_CF df) (Total_DS df)"
    by (rule build_full_model_SomeD)
  from sch obtain t where t: "sched_after p ?n = Some t"
    and h: "usd_prin = usd_principal_hist t" "usd_int = usd_interest_hist t"
      "lkr_prin = lkr_principal_hist t" "lkr_int = lkr_interest_hist t"
    by (rule compute_debt_schedule_SomeD)
  from sched_after_length[OF t] h
  have ls: "length usd_prin = ?n" "length usd_int = ?n" "length lkr_prin = ?n" "length lkr_int = ?n"
    by simp_all
  have lfx: "length (FX df) = ?n" by (simp add: cols(1) del: upt_Suc)
  have fx: "FX df ! i = compute_fx p (Suc i)"
    using build_full_model_cols(3)[OF df i] .
  have li: "length (LKR_Int df) = ?n" "length (LKR_Prin df) = ?n"
    by (simp_all add: dcols ls lfx)
  have lt: "length (Total_DS df) = ?n"
    by (simp add: dcols(5) ls li)
  from those_years_Some(1)[OF r] those_years_Some(1)[OF s] those_years_Some(1)[OF opx]
  have lo: "length (Op_CF df) = ?n"
    by (simp add: cols)
  have 1: "USD_Int df ! i = usd_int ! i" "USD_Prin df ! i = usd_prin ! i"
    by (simp_all add: dcols)
  have 2: "LKR_Int df ! i = lkr_int ! i / compute_fx p (Suc i)"
    using i ls lfx fx by (simp add: dcols(3))
  have 3: "LKR_Prin df ! i = lkr_prin ! i / compute_fx p (Suc i)"
    using i ls lfx fx by (simp add: dcols(4))
  have 4: "Total_DS df ! i = USD_Int df ! i + USD_Prin df ! i + LKR_Int df ! i + LKR_Prin df ! i"
    using i ls li by (simp add: dcols(5) dcols(1,2))
  have 5: "Eq_CF df ! i = Op_CF df ! i - Total_DS df ! i"
    using i lt lo by (simp add: dcols(7))
  have 6: "DSCR df ! i = (if 1 / 1000000 < Total_DS df ! i
                    then np_divide (Op_CF df ! i) (Total_DS df ! i) else NaN)"
    using i lt lo by (simp add: dcols(6) np_where_def)
  from sch 1 2 3 4 5 6 show thesis by (rule that)
qed

lemma build_full_model_None_iff:
  "build_full_model p = None \<longleftrightarrow>
     ECON_LIFE p = 0 \<or> (\<exists>y. 1 \<le> y \<and> y \<le> PROJECT_YEARS p \<and> compute_fx p y = 0)"
proof
  assume none: "build_full_model p = None"
  show "ECON_LIFE p = 0 \<or> (\<exists>y. 1 \<le> y \<and> y \<le> PROJECT_YEARS p \<and> compute_fx p y = 0)"
  proof (rule ccontr)
    assume "\<not> ?thesis"
    then have e: "ECON_LIFE p \<noteq> 0"
      and f0: "\<And>y. 1 \<le> y \<Longrightarrow> y \<le> PROJECT_YEARS p \<Longrightarrow> compute_fx p y \<noteq> 0"
      by auto
    have f: "compute_fx p y \<noteq> 0" if "y \<in> set [1..<Suc (PROJECT_YEARS p)]" for y
      using that f0[of y] by (simp del: upt_Suc)
    let ?ys = "[1..<Suc (PROJECT_YEARS p)]"
    have t: "those (map (compute_tariff_usd p) ?ys) = Some (map (\<lambda>y. the (compute_tariff_usd p y)) ?ys)"
      by (rule those_map_total) (use f in \<open>simp add: compute_tariff_usd_eq\<close>)
    have r: "those (map (compute_revenue p) ?ys) = Some (map (\<lambda>y. the (compute_revenue p y)) ?ys)"
      by (rule those_map_total) (use f in \<open>simp add: compute_revenue_eq\<close>)
    have s: "those (map (compute_sscl p) ?ys) = Some (map (\<lambda>y. the (compute_sscl p y)) ?ys)"
      by (rule those_map_total) (use f in \<open>simp add: compute_sscl_eq\<close>)
    have opx: "those (map (compute_opex p) ?ys) = Some (map (\<lambda>y. the (compute_opex p y)) ?ys)"
      by (rule those_map_total) (use f in \<open>simp add: compute_opex_eq\<close>)
    from e have d: "compute_depreciation p = Some (CAPEX_TOTAL p / real (ECON_LIFE p))"
      by (simp add: compute_depreciation_eq)
    from e f0 have "compute_debt_schedule p \<noteq> None"
      by (auto simp: compute_debt_schedule_None_iff)
    then obtain a b c d' e' where sch: "compute_debt_schedule p = Some (a, b, c, d', e')"
      by (cases "compute_debt_schedule p") auto
    have "build_full_model p \<noteq> None"
      unfolding build_full_model_def Let_def
      by (simp only: t r s opx d sch) simp
    with none show False by contradiction
  qed
next
  assume "ECON_LIFE p = 0 \<or> (\<exists>y. 1 \<le> y \<and> y \<le> PROJECT_YEARS p \<and> compute_fx p y = 0)"
  then show "build_full_model p = None"
  proof
    assume "ECON_LIFE p = 0"
    then show ?thesis
      by (cases "build_full_model p") (auto dest: build_full_model_cols(2) build_full_model_DA)
  next
    assume "\<exists>y. 1 \<le> y \<and> y \<le> PROJECT_YEARS p \<and> compute_fx p y = 0"
    then obtain y where y: "1 \<le> y" "y \<le> PROJECT_YEARS p" "compute_fx p y = 0" by blast
    then obtain i where i: "y = Suc i" "i < PROJECT_YEARS p" by (cases y) auto
    show ?thesis
    proof (cases "build_full_model p")
      case None
      then show ?thesis .
    next
      case (Some df)
      from build_full_model_cols(1)[OF Some i(2)] y(3) i(1) show ?thesis by simp
    qed
  qed
qed

lemma nominal_model_returns: "build_full_model nominal \<noteq> None"
proof -
  have "ECON_LIFE nominal \<noteq> 0" by (simp add: nominal_def)
  then show ?thesis by (simp add: build_full_model_None_iff nominal_fx_nonzero)
qed

text \<open>
  The first year of the ledger for the constants of the source, and for the same constants
  without any debt, where the total debt service is zero.
\<close>

lemma nominal_first_year_debt_service:
  "Total_DS (the (build_full_model nominal)) ! 0 =
     39452 / 10000 + 0 + 96831 / 100 / 300 + 9222 / 10 / 300"
proof -
  from nominal_model_returns obtain df where df: "build_full_model nominal = Some df" by auto
  have i: "0 < PROJECT_YEARS nominal" by (simp add: nominal_years)
  from df i obtain usd_prin usd_int lkr_prin lkr_int lkr_ds where
    sch: "compute_debt_schedule nominal = Some (usd_prin, usd_int, lkr_prin, lkr_int, lkr_ds)" and
    c: "USD_Int df ! 0 = usd_int ! 0" "USD_Prin df ! 0 = usd_prin ! 0"
      "LKR_Int df ! 0 = lkr_int ! 0 / compute_fx nominal (Suc 0)"
      "LKR_Prin df ! 0 = lkr_prin ! 0 / compute_fx nominal (Suc 0)"
      "Total_DS df ! 0 = USD_Int df ! 0 + USD_Prin df ! 0 + LKR_Int df ! 0 + LKR_Prin df ! 0"
    by (rule build_full_model_debt_cols)
  from nominal_op_cf_bound[of "Suc 0"] obtain oc where oc: "sched_op_cf nominal (Suc 0) = Some oc"
    by auto
  note en = schedule_entry[OF sch i sched_after_0 oc]
  have "usd_int ! 0 = 39452 / 10000" "usd_prin ! 0 = 0" "lkr_int ! 0 = 96831 / 100"
    "lkr_prin ! 0 = 9222 / 10"
    unfolding en by (simp_all add: sched_init_def usd_policy_year1 lkr_policy_def nominal_def)
  with c have "Total_DS df ! 0 = 39452 / 10000 + 0 + 96831 / 100 / 300 + 9222 / 10 / 300"
    by (simp add: nominal_fx)
  with df show ?thesis by simp
qed

lemma no_debt_first_year:
  "build_full_model (nominal\<lparr>USD_DEBT_INIT := 0, LKR_DEBT_INIT := 0\<rparr>) \<noteq> None \<and>
   Total_DS (the (build_full_model (nominal\<lparr>USD_DEBT_INIT := 0, LKR_DEBT_INIT := 0\<rparr>))) ! 0 = 0"
proof -
  let ?p = "nominal\<lparr>USD_DEBT_INIT := 0, LKR_DEBT_INIT := 0\<rparr>"
  have fx: "compute_fx ?p y = compute_fx nominal y" for y by (simp add: compute_fx_def)
  have e: "ECON_LIFE ?p = 20" "PROJECT_YEARS ?p = 20" by (simp_all add: nominal_def)
  have "build_full_model ?p \<noteq> None"
    by (simp only: build_full_model_None_iff fx e) (simp add: nominal_fx_nonzero)
  then obtain df where df: "build_full_model ?p = Some df" by auto
  have i: "0 < PROJECT_YEARS ?p" by (simp add: e)
  from df i obtain usd_prin usd_int lkr_prin lkr_int lkr_ds where
    sch: "compute_debt_schedule ?p = Some (usd_prin, usd_int, lkr_prin, lkr_int, lkr_ds)" and
    c: "USD_Int df ! 0 = usd_int ! 0" "USD_Prin df ! 0 = usd_prin ! 0"
      "LKR_Int df ! 0 = lkr_int ! 0 / compute_fx ?p (Suc 0)"
      "LKR_Prin df ! 0 = lkr_prin ! 0 / compute_fx ?p (Suc 0)"
      "Total_DS df ! 0 = USD_Int df ! 0 + USD_Prin df ! 0 + LKR_Int df ! 0 + LKR_Prin df ! 0"
    by (rule build_full_model_debt_cols)
  from build_full_model_cols(1,2)[OF df i] have "sched_op_cf ?p (Suc 0) \<noteq> None"
    by (simp only: sched_op_cf_None) simp
  then obtain oc where oc: "sched_op_cf ?p (Suc 0) = Some oc" by auto
  note en = schedule_entry[OF sch i sched_after_0 oc]
  have "usd_int ! 0 = 0" "usd_prin ! 0 = 0" "lkr_int ! 0 = 0" "lkr_prin ! 0 = 0"
    unfolding en by (simp_all add: sched_init_def usd_policy_year1 lkr_policy_def)
  with c have "Total_DS df ! 0 = 0" by simp
  with df show ?thesis by simp
qed

section \<open>Facts about the optimizer and the sampler\<close>








lemma draws_length: "draws next_double g n = (us, g') \<Longrightarrow> length us = n"
  by (induction n arbitrary: g us g') (auto split: prod.splits)

lemma uniform_length: "uniform next_double g low high n = (xs, g') \<Longrightarrow> length xs = n"
  by (auto simp: uniform_def split: prod.splits dest: draws_length)

lemma generate_mc_parameters_lengths:
  "length (mc_usd_rate (generate_mc_parameters seed_rng next_double entropy n seed)) = n \<and>
   length (mc_lkr_rate (generate_mc_parameters seed_rng next_double entropy n seed)) = n \<and>
   length (mc_debt_ratio (generate_mc_parameters seed_rng next_double entropy n seed)) = n \<and>
   length (mc_fx_depr (generate_mc_parameters seed_rng next_double entropy n seed)) = n \<and>
   length (mc_capacity_factor (generate_mc_parameters seed_rng next_double entropy n seed)) = n"
  unfolding generate_mc_parameters_def Let_def
  by (auto split: prod.splits dest: uniform_length)

text \<open>
  Without a seed the sampled values depend on the entropy of the call: the model does
  distinguish two unseeded runs.
\<close>

lemma unseeded_runs_can_differ:
  "generate_mc_parameters (\<lambda>s. s) (\<lambda>g. (real g / 2, Suc g)) 0 1 None \<noteq>
   generate_mc_parameters (\<lambda>s. s) (\<lambda>g. (real g / 2, Suc g)) 1 1 None"
  by (simp add: generate_mc_parameters_def default_rng_def uniform_def)

section \<open>The claims\<close>

subsection \<open>C1: outstanding balances\<close>

text \<open>
  A year of distress: with a capacity factor of zero there is no revenue, the available cash
  flow of year 2 is negative, the USD principal of year 2 is negative and the USD balance
  grows from year 1 to year 2. The policy's principal is not floored at zero.
\<close>

lemma distress_year1:
  "sched_after (nominal\<lparr>CF_P50 := 0\<rparr>) 1 = Some
     \<lparr>usd_bal = 5636 / 100, lkr_bal = 129108 / 10,
      usd_principal_hist = [0], usd_interest_hist = [39452 / 10000],
      lkr_principal_hist = [9222 / 10], lkr_interest_hist = [96831 / 100],
      lkr_ds_hist = [189051 / 100]\<rparr>"
  by (simp add: sched_after_def sched_init_def sched_year_def sched_op_cf_def compute_revenue_def
      compute_sscl_def compute_opex_def compute_tariff_usd_def compute_fx_def
      compute_generation_def compute_depreciation_def py_div_def usd_policy_def lkr_policy_def
      nominal_def Let_def)

lemma distress_year2:
  "sched_after (nominal\<lparr>CF_P50 := 0\<rparr>) 2 = Some
     \<lparr>usd_bal = 5636 / 100 + 8 / 10 * (39452 / 10000 + 903756 / 1000 / 309),
      lkr_bal = 129108 / 10 - 129108 / 10 / 14,
      usd_principal_hist = [0, - (8 / 10 * (39452 / 10000 + 903756 / 1000 / 309))],
      usd_interest_hist = [39452 / 10000, 39452 / 10000],
      lkr_principal_hist = [9222 / 10, 129108 / 10 / 14],
      lkr_interest_hist = [96831 / 100, 903756 / 1000],
      lkr_ds_hist = [189051 / 100, 903756 / 1000 + 129108 / 10 / 14]\<rparr>"
proof -
  have "sched_after (nominal\<lparr>CF_P50 := 0\<rparr>) 2 = sched_after (nominal\<lparr>CF_P50 := 0\<rparr>) (Suc 1)"
    by (simp add: numeral_2_eq_2)
  also have "\<dots> = Some
     \<lparr>usd_bal = 5636 / 100 + 8 / 10 * (39452 / 10000 + 903756 / 1000 / 309),
      lkr_bal = 129108 / 10 - 129108 / 10 / 14,
      usd_principal_hist = [0, - (8 / 10 * (39452 / 10000 + 903756 / 1000 / 309))],
      usd_interest_hist = [39452 / 10000, 39452 / 10000],
      lkr_principal_hist = [9222 / 10, 129108 / 10 / 14],
      lkr_interest_hist = [96831 / 100, 903756 / 1000],
      lkr_ds_hist = [189051 / 100, 903756 / 1000 + 129108 / 10 / 14]\<rparr>"
    unfolding sched_after_Suc distress_year1
    by (simp add: sched_year_def sched_op_cf_def compute_revenue_def
      compute_sscl_def compute_opex_def compute_tariff_usd_def compute_fx_def
      compute_generation_def compute_depreciation_def py_div_def usd_policy_def lkr_policy_def
      nominal_def Let_def)
  finally show ?thesis .
qed

text \<open>
  C1, as stated, fails: the claim says that each policy's principal is floored at zero, so
  that no balance ever increases. In the configuration of the source with the capacity
  factor set to zero, the USD principal of year 2 is negative and the USD balance after
  year 2 is larger than after year 1.
\<close>

theorem usd_balance_increases_in_distress:
  "sched_after (nominal\<lparr>CF_P50 := 0\<rparr>) 1 \<noteq> None \<and>
   sched_after (nominal\<lparr>CF_P50 := 0\<rparr>) 2 \<noteq> None \<and>
   usd_principal_hist (the (sched_after (nominal\<lparr>CF_P50 := 0\<rparr>) 2)) ! 1 < 0 \<and>
   usd_bal (the (sched_after (nominal\<lparr>CF_P50 := 0\<rparr>) 1)) <
   usd_bal (the (sched_after (nominal\<lparr>CF_P50 := 0\<rparr>) 2))"
  unfolding distress_year1 distress_year2 by simp

text \<open>
  C1, amended. After every year of the schedule both balances are non-negative, for every
  configuration: the balance itself is floored at zero. The LKR balance does not increase
  from a non-negative balance, and the USD balance does not increase from a non-negative
  balance in a year whose computed principal is non-negative. In a covered configuration
  both balances are non-negative and do not increase in any year of the horizon. The
  configuration of the source is covered: in each of its 20 years both balances are
  non-negative and do not increase. The principal itself is not floored at zero.
\<close>

theorem debt_balances_floor_and_coverage:
  "(\<forall>s'. sched_after p (Suc k) = Some s' \<longrightarrow> 0 \<le> usd_bal s' \<and> 0 \<le> lkr_bal s') \<and>
   (\<forall>s s'. sched_after p k = Some s \<and> sched_after p (Suc k) = Some s' \<and> 0 \<le> lkr_bal s \<longrightarrow>
      lkr_bal s' \<le> lkr_bal s) \<and>
   (\<forall>s s'. sched_after p k = Some s \<and> sched_after p (Suc k) = Some s' \<and> 0 \<le> usd_bal s \<and>
      0 \<le> last (usd_principal_hist s') \<longrightarrow> usd_bal s' \<le> usd_bal s) \<and>
   (covered p \<and> k < PROJECT_YEARS p \<longrightarrow>
      (\<exists>s s'. sched_after p k = Some s \<and> sched_after p (Suc k) = Some s' \<and>
         0 \<le> usd_bal s' \<and> usd_bal s' \<le> usd_bal s \<and>
         0 \<le> lkr_bal s' \<and> lkr_bal s' \<le> lkr_bal s)) \<and>
   (\<forall>j<20. \<exists>s s'. sched_after nominal j = Some s \<and> sched_after nominal (Suc j) = Some s' \<and>
         0 \<le> usd_bal s' \<and> usd_bal s' \<le> usd_bal s \<and>
         0 \<le> lkr_bal s' \<and> lkr_bal s' \<le> lkr_bal s)"
proof (intro conjI allI impI)
  fix s'
  assume "sched_after p (Suc k) = Some s'"
  then obtain s where "sched_year p (Suc k) s = Some s'" by (rule sched_after_SucD)
  then show "0 \<le> usd_bal s'" "0 \<le> lkr_bal s'" by (rule sched_year_nonneg)+
next
  fix s s'
  assume a: "sched_after p k = Some s \<and> sched_after p (Suc k) = Some s' \<and> 0 \<le> lkr_bal s"
  then have b: "sched_after p k = Some s" "sched_after p (Suc k) = Some s'" "0 \<le> lkr_bal s"
    by simp_all
  from b(1,2) have "sched_year p (Suc k) s = Some s'" by (simp add: sched_after_Suc)
  from sched_year_lkr_mono[OF this b(3)] show "lkr_bal s' \<le> lkr_bal s" .
next
  fix s s'
  assume a: "sched_after p k = Some s \<and> sched_after p (Suc k) = Some s' \<and> 0 \<le> usd_bal s \<and>
      0 \<le> last (usd_principal_hist s')"
  then have b: "sched_after p k = Some s" "sched_after p (Suc k) = Some s'" "0 \<le> usd_bal s"
    "0 \<le> last (usd_principal_hist s')"
    by simp_all
  from b(1,2) have "sched_year p (Suc k) s = Some s'" by (simp add: sched_after_Suc)
  from sched_year_usd_mono[OF this b(3,4)] show "usd_bal s' \<le> usd_bal s" .
next
  assume "covered p \<and> k < PROJECT_YEARS p"
  then have "covered p" "k < PROJECT_YEARS p" by simp_all
  from covered_monotone[OF this]
  show "\<exists>s s'. sched_after p k = Some s \<and> sched_after p (Suc k) = Some s' \<and>
         0 \<le> usd_bal s' \<and> usd_bal s' \<le> usd_bal s \<and>
         0 \<le> lkr_bal s' \<and> lkr_bal s' \<le> lkr_bal s" by blast
next
  fix j :: nat
  assume "j < 20"
  then show "\<exists>s s'. sched_after nominal j = Some s \<and> sched_after nominal (Suc j) = Some s' \<and>
         0 \<le> usd_bal s' \<and> usd_bal s' \<le> usd_bal s \<and>
         0 \<le> lkr_bal s' \<and> lkr_bal s' \<le> lkr_bal s" by (rule nominal_balances)
qed

theorem debt_balances_floor_and_coverage_witness:
  "sched_after nominal 1 \<noteq> None \<and> sched_after nominal (Suc 1) \<noteq> None \<and>
   0 \<le> last (usd_principal_hist (the (sched_after nominal (Suc 1)))) \<and>
   0 \<le> usd_bal (the (sched_after nominal (Suc 1))) \<and>
   usd_bal (the (sched_after nominal (Suc 1))) \<le> usd_bal (the (sched_after nominal 1)) \<and>
   0 \<le> lkr_bal (the (sched_after nominal (Suc 1))) \<and>
   lkr_bal (the (sched_after nominal (Suc 1))) \<le> lkr_bal (the (sched_after nominal 1))"
proof -
  have k: "(1::nat) < PROJECT_YEARS nominal" by (simp add: nominal_def)
  from covered_monotone[OF nominal_covered k]
  obtain s s' where s: "sched_after nominal 1 = Some s" "sched_after nominal (Suc 1) = Some s'"
    and p: "0 \<le> last (usd_principal_hist s')" "0 \<le> lkr_bal s" "0 \<le> usd_bal s"
    by (auto dest: covered_invariant[OF nominal_covered, of 1, simplified])
  from debt_balances_floor_and_coverage[of nominal 1] s p show ?thesis by auto
qed

subsection \<open>C2: depreciation\<close>




subsection \<open>C3: equity cash flow\<close>

text \<open>
  C3. In every year of the ledger the total debt service is the sum of USD interest, USD
  principal and the LKR interest and principal of the schedule, each divided by that year's
  FX rate, and the equity cash flow is the operating cash flow minus the total debt service.
\<close>

theorem equity_cf_is_op_cf_minus_debt_service:
  assumes "build_full_model p = Some df" and "i < PROJECT_YEARS p"
  shows "\<exists>usd_prin usd_int lkr_prin lkr_int lkr_ds.
           compute_debt_schedule p = Some (usd_prin, usd_int, lkr_prin, lkr_int, lkr_ds) \<and>
           Total_DS df ! i =
             usd_int ! i + usd_prin ! i +
             lkr_int ! i / compute_fx p (Suc i) + lkr_prin ! i / compute_fx p (Suc i) \<and>
           Eq_CF df ! i = Op_CF df ! i - Total_DS df ! i"
  using assms by (elim build_full_model_debt_cols) auto

theorem equity_cf_is_op_cf_minus_debt_service_witness:
  "build_full_model nominal \<noteq> None \<and> (0::nat) < PROJECT_YEARS nominal \<and>
   compute_debt_schedule nominal \<noteq> None \<and>
   Total_DS (the (build_full_model nominal)) ! 0 =
     fst (snd (the (compute_debt_schedule nominal))) ! 0 +
     fst (the (compute_debt_schedule nominal)) ! 0 +
     fst (snd (snd (snd (the (compute_debt_schedule nominal))))) ! 0 / compute_fx nominal (Suc 0) +
     fst (snd (snd (the (compute_debt_schedule nominal)))) ! 0 / compute_fx nominal (Suc 0) \<and>
   Eq_CF (the (build_full_model nominal)) ! 0 =
     Op_CF (the (build_full_model nominal)) ! 0 - Total_DS (the (build_full_model nominal)) ! 0"
proof -
  from nominal_model_returns obtain df where df: "build_full_model nominal = Some df" by auto
  have k: "0 < PROJECT_YEARS nominal" by (simp add: nominal_years)
  from equity_cf_is_op_cf_minus_debt_service[OF df k] show ?thesis
    by (auto simp: df k)
qed

subsection \<open>C4: ill-posed input of the root finder\<close>

text \<open>
  C4. Whatever the solver phase does, \<^verbatim>\<open>calculate_irr_robust\<close> returns (does not raise) a
  dictionary with status ERROR and no rate: with the message about too few points for fewer
  than two cash flows; with the message about no negative cash flows for two or more cash
  flows none of which is negative; with the message about no positive cash flows for two or
  more cash flows none of which is positive and one of which is negative. The solver phase
  is not consulted: the result is the same for every \<open>solver_phase\<close>.
\<close>

theorem irr_ill_posed_input_is_error:
  "(length cash_flows < 2 \<longrightarrow>
      calculate_irr_robust solver_phase cash_flows method initial_guess tolerance max_iterations =
        Returns [(''irr'', PyNone), (''status'', PyStr ''ERROR''),
                 (''message'', PyStr ''Need at least 2 cash flows''), (''method'', PyNone)]) \<and>
   (2 \<le> length cash_flows \<and> (\<forall>cf \<in> set cash_flows. 0 \<le> cf) \<longrightarrow>
      calculate_irr_robust solver_phase cash_flows method initial_guess tolerance max_iterations =
        Returns [(''irr'', PyNone), (''status'', PyStr ''ERROR''),
                 (''message'', PyStr ''No negative cash flows - IRR undefined''),
                 (''method'', PyNone)]) \<and>
   (2 \<le> length cash_flows \<and> (\<exists>cf \<in> set cash_flows. cf < 0) \<and>
    (\<forall>cf \<in> set cash_flows. cf \<le> 0) \<longrightarrow>
      calculate_irr_robust solver_phase cash_flows method initial_guess tolerance max_iterations =
        Returns [(''irr'', PyNone), (''status'', PyStr ''ERROR''),
                 (''message'', PyStr ''No positive cash flows - IRR undefined''),
                 (''method'', PyNone)]) \<and>
   (length cash_flows < 2 \<or> (\<forall>cf \<in> set cash_flows. 0 \<le> cf) \<or> (\<forall>cf \<in> set cash_flows. cf \<le> 0) \<longrightarrow>
      (\<exists>d. calculate_irr_robust solver_phase cash_flows method initial_guess tolerance
             max_iterations = Returns d \<and>
           map_of d ''status'' = Some (PyStr ''ERROR'') \<and> map_of d ''irr'' = Some PyNone)) \<and>
   ''Need at least 2 cash flows'' \<noteq> ''No negative cash flows - IRR undefined'' \<and>
   ''Need at least 2 cash flows'' \<noteq> ''No positive cash flows - IRR undefined'' \<and>
   ''No negative cash flows - IRR undefined'' \<noteq> ''No positive cash flows - IRR undefined''"
  by (auto simp: calculate_irr_robust_def list_all_iff not_le)

theorem irr_ill_posed_input_is_error_witness:
  "calculate_irr_robust (\<lambda>cfs m g t n w. Raises ''solver called'') [100] ''brentq'' (1/10) (1/10^8) 1000 =
        Returns [(''irr'', PyNone), (''status'', PyStr ''ERROR''),
                 (''message'', PyStr ''Need at least 2 cash flows''), (''method'', PyNone)] \<and>
   calculate_irr_robust (\<lambda>cfs m g t n w. Raises ''solver called'') [10, 10, 10] ''brentq'' (1/10) (1/10^8) 1000 =
        Returns [(''irr'', PyNone), (''status'', PyStr ''ERROR''),
                 (''message'', PyStr ''No negative cash flows - IRR undefined''),
                 (''method'', PyNone)] \<and>
   calculate_irr_robust (\<lambda>cfs m g t n w. Raises ''solver called'') [-10, 0, -10] ''brentq'' (1/10) (1/10^8) 1000 =
        Returns [(''irr'', PyNone), (''status'', PyStr ''ERROR''),
                 (''message'', PyStr ''No positive cash flows - IRR undefined''),
                 (''method'', PyNone)]"
  using irr_ill_posed_input_is_error[of "[100]" "\<lambda>cfs m g t n w. Raises ''solver called''" "''brentq''" "1/10" "1/10^8" 1000]
    irr_ill_posed_input_is_error[of "[10, 10, 10]" "\<lambda>cfs m g t n w. Raises ''solver called''" "''brentq''" "1/10" "1/10^8" 1000]
    irr_ill_posed_input_is_error[of "[-10, 0, -10]" "\<lambda>cfs m g t n w. Raises ''solver called''" "''brentq''" "1/10" "1/10^8" 1000]
  by simp

subsection \<open>C5: grace period\<close>



subsection \<open>C6: debt-service coverage ratio\<close>

text \<open>
  C6. The ledger is not produced exactly when a scalar division upstream raises (economic
  life zero, or an FX rate of zero in some year); the DSCR line itself never raises. In
  every year of a ledger the DSCR is the operating cash flow divided by the total debt
  service when the total debt service exceeds one millionth, and not-a-number otherwise;
  it is never an infinity.
\<close>

theorem dscr_guarded_never_infinite:
  "(build_full_model p = None \<longleftrightarrow>
      ECON_LIFE p = 0 \<or> (\<exists>y. 1 \<le> y \<and> y \<le> PROJECT_YEARS p \<and> compute_fx p y = 0)) \<and>
   (\<forall>df i. build_full_model p = Some df \<and> i < PROJECT_YEARS p \<longrightarrow>
      DSCR df ! i = (if 1 / 1000000 < Total_DS df ! i
                     then Finite (Op_CF df ! i / Total_DS df ! i) else NaN) \<and>
      DSCR df ! i \<noteq> PosInf \<and> DSCR df ! i \<noteq> NegInf)"
proof (intro conjI allI impI)
  show "build_full_model p = None \<longleftrightarrow>
      ECON_LIFE p = 0 \<or> (\<exists>y. 1 \<le> y \<and> y \<le> PROJECT_YEARS p \<and> compute_fx p y = 0)"
    by (rule build_full_model_None_iff)
next
  fix df i
  assume a: "build_full_model p = Some df \<and> i < PROJECT_YEARS p"
  then have d: "DSCR df ! i = (if 1 / 1000000 < Total_DS df ! i
                    then np_divide (Op_CF df ! i) (Total_DS df ! i) else NaN)"
    by (elim conjE build_full_model_debt_cols)
  then show e: "DSCR df ! i = (if 1 / 1000000 < Total_DS df ! i
                     then Finite (Op_CF df ! i / Total_DS df ! i) else NaN)"
    by (simp add: np_divide_def)
  from e show "DSCR df ! i \<noteq> PosInf" by (simp split: if_splits)
  from e show "DSCR df ! i \<noteq> NegInf" by (simp split: if_splits)
qed

theorem dscr_guarded_never_infinite_witness:
  "build_full_model nominal \<noteq> None \<and> (0::nat) < PROJECT_YEARS nominal \<and>
   DSCR (the (build_full_model nominal)) ! 0 =
     Finite (Op_CF (the (build_full_model nominal)) ! 0 /
             (39452 / 10000 + 0 + 96831 / 100 / 300 + 9222 / 10 / 300)) \<and>
   build_full_model (nominal\<lparr>ECON_LIFE := 0\<rparr>) = None \<and>
   build_full_model (nominal\<lparr>USD_DEBT_INIT := 0, LKR_DEBT_INIT := 0\<rparr>) \<noteq> None \<and>
   Total_DS (the (build_full_model (nominal\<lparr>USD_DEBT_INIT := 0, LKR_DEBT_INIT := 0\<rparr>))) ! 0 = 0 \<and>
   DSCR (the (build_full_model (nominal\<lparr>USD_DEBT_INIT := 0, LKR_DEBT_INIT := 0\<rparr>))) ! 0 = NaN"
proof -
  from nominal_model_returns obtain df where df: "build_full_model nominal = Some df" by auto
  have k: "0 < PROJECT_YEARS nominal" by (simp add: nominal_years)
  from nominal_first_year_debt_service df
  have t: "Total_DS df ! 0 = 39452 / 10000 + 0 + 96831 / 100 / 300 + 9222 / 10 / 300" by simp
  from dscr_guarded_never_infinite[of nominal] df k
  have "DSCR df ! 0 = (if 1 / 1000000 < Total_DS df ! 0
                     then Finite (Op_CF df ! 0 / Total_DS df ! 0) else NaN)"
    by blast
  then have "DSCR df ! 0 =
      Finite (Op_CF df ! 0 / (39452 / 10000 + 0 + 96831 / 100 / 300 + 9222 / 10 / 300))"
    unfolding t by simp
  moreover from dscr_guarded_never_infinite[of "nominal\<lparr>ECON_LIFE := 0\<rparr>"]
  have "build_full_model (nominal\<lparr>ECON_LIFE := 0\<rparr>) = None" by simp
  moreover
  let ?q = "nominal\<lparr>USD_DEBT_INIT := 0, LKR_DEBT_INIT := 0\<rparr>"
  from no_debt_first_year obtain df0 where df0: "build_full_model ?q = Some df0"
    and t0: "Total_DS df0 ! 0 = 0" by auto
  have k0: "0 < PROJECT_YEARS ?q" by (simp add: nominal_def)
  from dscr_guarded_never_infinite[of ?q] df0 k0
  have "DSCR df0 ! 0 = (if 1 / 1000000 < Total_DS df0 ! 0
                     then Finite (Op_CF df0 ! 0 / Total_DS df0 ! 0) else NaN)"
    by blast
  with t0 have "DSCR df0 ! 0 = NaN" by simp
  ultimately show ?thesis by (simp add: df k df0 t0)
qed

subsection \<open>C7: the optimizer\<close>




subsection \<open>C8: reproducible sampling\<close>


subsection \<open>C9: the two operating-cash-flow chains\<close>



subsection \<open>C10: year-1 principal for any grace period\<close>

text \<open>
  C10. For every value of the grace period, also zero, the USD policy gives a principal of
  zero in year 1, whatever the balance and the available cash flow, and the first entry of
  the USD principal array of a schedule is zero.
\<close>

theorem year1_principal_zero_for_any_grace:
  assumes "compute_debt_schedule (p\<lparr>GRACE_PERIOD := g\<rparr>) = Some (usd_prin, usd_int, lkr_prin, lkr_int, lkr_ds)"
    and "0 < PROJECT_YEARS p"
  shows "usd_policy (p\<lparr>GRACE_PERIOD := g\<rparr>) 1 bal avail = 0 \<and> usd_prin ! 0 = 0"
  using first_year_principal[OF assms(1)] assms(2) by (simp add: usd_policy_year1)

theorem year1_principal_zero_for_any_grace_witness:
  "compute_debt_schedule (nominal\<lparr>GRACE_PERIOD := 0\<rparr>) \<noteq> None \<and>
   (0::nat) < PROJECT_YEARS nominal \<and>
   usd_policy (nominal\<lparr>GRACE_PERIOD := 0\<rparr>) 1 (5636 / 100) 10 = 0 \<and>
   fst (the (compute_debt_schedule (nominal\<lparr>GRACE_PERIOD := 0\<rparr>))) ! 0 = 0"
proof -
  have r: "compute_debt_schedule (nominal\<lparr>GRACE_PERIOD := 0\<rparr>) \<noteq> None"
    by (simp add: compute_debt_schedule_grace nominal_schedule_returns)
  then obtain a b c d e where
    sch: "compute_debt_schedule (nominal\<lparr>GRACE_PERIOD := 0\<rparr>) = Some (a, b, c, d, e)"
    by (cases "compute_debt_schedule (nominal\<lparr>GRACE_PERIOD := 0\<rparr>)") auto
  have k: "0 < PROJECT_YEARS nominal" by (simp add: nominal_years)
  from year1_principal_zero_for_any_grace[OF sch k, of "5636 / 100" 10] show ?thesis by (simp add: sch k)
qed

end
